theory Spec2Isabelle
  imports Complex_Main
begin

section \<open>The plotting helpers of \<^verbatim>\<open>plot.py\<close>\<close>

text \<open>
  The module holds style tables and two functions with logic of their own,
  \<^verbatim>\<open>bar_subplot\<close> (the grouped bar layout) and \<^verbatim>\<open>bar_plot\<close> (a figure with one
  grouped bar chart, saved twice). Both work by calling matplotlib, which is not part
  of the module.

  Conventions of the embedding:
  \<^item> The value of a \<^verbatim>\<open>float\<close> is a \<open>real\<close>: arithmetic is exact, the rounding of
    binary floating point is not modelled. A number also has a kind, Python's own or
    numpy's, because the two divide by zero differently. The integer array of
    \<^verbatim>\<open>np.arange\<close> is an \<open>int list\<close>.
  \<^item> The plotting library is a parameter. Its state is the sequence of calls issued
    to it so far, be it through \<^verbatim>\<open>plt\<close>, the figure or the axes; for each further call
    the parameter says whether the library raises (with which message) or returns. A
    call that raises is still in the sequence: it was issued. The library is taken not
    to write to the lists it is handed.
  \<^item> The mutable objects a call can reach (the axes, the caller's list of category
    labels, the caller's list of series) are the fields of one state record, which
    every function takes and returns. Immutable arguments (strings, numbers,
    \<^verbatim>\<open>None\<close>) are ordinary parameters.
  \<^item> An exception is a value: a function returns the error, if any, together with
    the state at the moment it was raised.
\<close>

subsection \<open>Module constants\<close>

definition elinewidth :: real where
  "elinewidth = 0.5"

definition capsize :: real where
  "capsize = 1"

definition capthick :: real where
  "capthick = 0.5"

definition palette :: "string list" where
  "palette =
    [''#19B2FF'', ''#2ca02c'', ''#FF7F00'', ''#654CFF'', ''#E51932'',
     ''#FFBF7F'', ''#FFFF99'', ''#B2FF8C'', ''#A5EDFF'', ''#CCBFFF'']"

definition hatch_list :: "string list" where
  "hatch_list = [''////////'', ''-----'', ''+++++++'', ''|||||||'']"

subsection \<open>Data\<close>

text \<open>
  A series is a dict with the keys \<^verbatim>\<open>'label'\<close>, \<^verbatim>\<open>'values'\<close> and \<^verbatim>\<open>'errors'\<close>; the code
  reads exactly these three. A dict that lacks one of them (a \<^verbatim>\<open>KeyError\<close> in Python)
  is not a value of this type. (\<open>values\<close> is a keyword of Isabelle, hence \<open>vals\<close>.)
\<close>

record series =
  label :: string
  vals :: "real list"
  errors :: "real list"

text \<open>The keyword arguments of one \<^verbatim>\<open>ax.bar\<close> call, positional ones first.\<close>

record bar_args =
  arg_x :: "real list"
  arg_height :: "real list"
  arg_width :: real
  arg_yerr :: "real list"
  arg_label :: string
  arg_fill :: bool
  arg_hatch :: string
  arg_edgecolor :: string
  arg_elinewidth :: real
  arg_capsize :: real
  arg_capthick :: real

text \<open>
  A path is a pure POSIX path of pathlib: its root (\<^verbatim>\<open>''\<close>, \<^verbatim>\<open>'/'\<close> or \<^verbatim>\<open>'//'\<close>) and its
  components after the root (pathlib keeps the root as the first element of \<^verbatim>\<open>_parts\<close>;
  a POSIX path has no drive). \<open>split_sep\<close> is \<^verbatim>\<open>str.split('/')\<close>, with \<open>split_from\<close>
  reading on once a word is begun. \<open>splitroot\<close> and \<open>parse_parts\<close> are the methods of
  pathlib's POSIX flavour, the latter for the one string that \<^verbatim>\<open>/\<close> is given here: empty
  components and \<^verbatim>\<open>'.'\<close> are dropped, \<^verbatim>\<open>'..'\<close> is kept. \<open>truediv\<close> is the operator \<^verbatim>\<open>/\<close> of
  a path and a string (\<^verbatim>\<open>join_parsed_parts\<close>): a string with a root replaces the path,
  any other is appended to it.
\<close>

record path =
  path_root :: string
  path_parts :: "string list"

fun split_from :: "string \<Rightarrow> string \<Rightarrow> string list" where
  "split_from word [] = [word]"
| "split_from word (c # cs) =
    (if c = CHR ''/'' then word # split_from [] cs else split_from (word @ [c]) cs)"

definition split_sep :: "string \<Rightarrow> string list" where
  "split_sep s = split_from [] s"

definition splitroot :: "string \<Rightarrow> string \<times> string" where
  "splitroot part =
    (if part \<noteq> [] \<and> hd part = CHR ''/'' then
       let stripped_part = dropWhile (\<lambda>c. c = CHR ''/'') part
       in if length part - length stripped_part = 2 then (''//'', stripped_part)
          else (''/'', stripped_part)
     else ([], part))"

definition parse_parts :: "string \<Rightarrow> path" where
  "parse_parts part =
    (case splitroot part of
       (root', rel) \<Rightarrow>
         \<lparr>path_root = root',
          path_parts = filter (\<lambda>x. x \<noteq> [] \<and> x \<noteq> ''.'') (split_sep rel)\<rparr>)"

text \<open>The constructor, for one string.\<close>

definition Path :: "string \<Rightarrow> path" where
  "Path part = parse_parts part"

definition truediv :: "path \<Rightarrow> string \<Rightarrow> path" where
  "truediv p key =
    (let p2 = parse_parts key
     in if path_root p2 \<noteq> [] then p2
        else \<lparr>path_root = path_root p, path_parts = path_parts p @ path_parts p2\<rparr>)"

type_synonym kwargs = "(string \<times> string) list"

text \<open>The calls the module issues to the plotting library.\<close>

datatype call =
    Subplots
  | Bar bar_args
  | Set_xlabel string
  | Set_ylabel string
  | Set_xticks "int list"
  | Set_xticklabels "string list"
  | Tick_params string real
  | Grid bool string
  | Legend "kwargs option"
  | Set_size_inches "real list"
  | Tight_layout real
  | Savefig path

datatype py_error = ZeroDivisionError | Raised_by_library string

text \<open>
  \<^verbatim>\<open>width_scale\<close> is a \<^verbatim>\<open>float\<close>. A \<^verbatim>\<open>numpy.float64\<close> is one too (the class derives from
  \<^verbatim>\<open>float\<close>), but where Python's \<^verbatim>\<open>/\<close> raises \<^verbatim>\<open>ZeroDivisionError\<close> for the divisor
  \<^verbatim>\<open>0\<close>, numpy's (as it is set up by default) warns and yields \<^verbatim>\<open>inf\<close> or \<^verbatim>\<open>nan\<close>.
  \<open>Python_float\<close> stands for Python's \<^verbatim>\<open>float\<close> and \<^verbatim>\<open>int\<close>.
\<close>

datatype kind = Python_float | Numpy_float64

datatype number = Number (kind_of: kind) (value_of: real)

type_synonym library = "call list \<Rightarrow> call \<Rightarrow> string option"

record state =
  ax :: "call list"
  xtick_labels :: "string list"
  data :: "series list"

type_synonym outcome = "py_error option \<times> state"

definition invoke :: "library \<Rightarrow> call \<Rightarrow> state \<Rightarrow> outcome" where
  "invoke lib c s = (map_option Raised_by_library (lib (ax s) c), s\<lparr>ax := ax s @ [c]\<rparr>)"

text \<open>Sequencing: an exception ends the call chain with the state reached so far.\<close>

definition and_then :: "outcome \<Rightarrow> (state \<Rightarrow> outcome) \<Rightarrow> outcome" where
  "and_then r f = (case r of (Some e, s) \<Rightarrow> (Some e, s) | (None, s) \<Rightarrow> f s)"

subsection \<open>\<^verbatim>\<open>itertools.cycle\<close>\<close>

text \<open>
  The iterator keeps the saved elements and those still to come in the current round.
  When the round is over it starts again from the saved ones; over an empty list it
  is exhausted at once.
\<close>

type_synonym 'a cycle_iter = "'a list \<times> 'a list"

definition cycle :: "'a list \<Rightarrow> 'a cycle_iter" where
  "cycle xs = (xs, xs)"

fun cycle_next :: "'a cycle_iter \<Rightarrow> ('a \<times> 'a cycle_iter) option" where
  "cycle_next (saved, y # ys) = Some (y, (saved, ys))"
| "cycle_next ([], []) = None"
| "cycle_next (z # zs, []) = Some (z, (z # zs, zs))"

subsection \<open>\<^verbatim>\<open>bar_subplot\<close>\<close>

definition arange :: "nat \<Rightarrow> int list" where
  "arange n = map int [0..<n]"

text \<open>\<^verbatim>\<open>x + offset\<close>: numpy adds the number to every element, giving a float array.\<close>

definition shift :: "int list \<Rightarrow> real \<Rightarrow> real list" where
  "shift x offset = map (\<lambda>i. real_of_int i + offset) x"

text \<open>
  \<^verbatim>\<open>zip(data, cycle(palette), cycle(hatch_list))\<close>: \<^verbatim>\<open>zip\<close> asks its iterators in
  turn, the list first, and stops at the first that is exhausted.
\<close>

fun zip_cycles :: "'a list \<Rightarrow> 'b cycle_iter \<Rightarrow> 'c cycle_iter \<Rightarrow> ('a \<times> 'b \<times> 'c) list" where
  "zip_cycles [] colors hatches = []"
| "zip_cycles (d # ds) colors hatches =
    (case cycle_next colors of
       None \<Rightarrow> []
     | Some (color, colors') \<Rightarrow>
        (case cycle_next hatches of
           None \<Rightarrow> []
         | Some (hatch, hatches') \<Rightarrow> (d, color, hatch) # zip_cycles ds colors' hatches'))"

text \<open>
  The \<^verbatim>\<open>for\<close> loop: one \<^verbatim>\<open>ax.bar\<close> call per triple, then \<^verbatim>\<open>offset += bar_width\<close>. The
  running offset is the loop's state.
\<close>

fun bar_loop ::
  "library \<Rightarrow> int list \<Rightarrow> real \<Rightarrow> (series \<times> string \<times> string) list \<Rightarrow> real \<Rightarrow> state \<Rightarrow> outcome" where
  "bar_loop lib x bar_width [] offset s = (None, s)"
| "bar_loop lib x bar_width ((d, color, hatch) # rest) offset s =
    and_then
      (invoke lib
        (Bar \<lparr>arg_x = shift x offset, arg_height = vals d, arg_width = bar_width,
              arg_yerr = errors d, arg_label = label d, arg_fill = False,
              arg_hatch = hatch, arg_edgecolor = color,
              arg_elinewidth = elinewidth, arg_capsize = capsize,
              arg_capthick = capthick\<rparr>) s)
      (bar_loop lib x bar_width rest (offset + bar_width))"

text \<open>
  \<^verbatim>\<open>width_scale/nb_catgs\<close> with no series: Python's division raises. numpy's does not;
  the quotient and the offset are then not finite, and HOL's \<open>x / 0\<close> stands in for
  them, which no call receives, since the loop has nothing to run over.
\<close>

definition bar_subplot ::
  "library \<Rightarrow> string option \<Rightarrow> string option \<Rightarrow> number \<Rightarrow> state \<Rightarrow> outcome" where
  "bar_subplot lib xlabel ylabel width_scale s =
    (let x = arange (length (xtick_labels s));
         nb_catgs = length (data s)
     in if nb_catgs = 0 \<and> kind_of width_scale = Python_float then (Some ZeroDivisionError, s)
        else
          let bar_width = value_of width_scale / real nb_catgs;
              offset = bar_width * real_of_int (1 - int nb_catgs) / 2
          in and_then
              (bar_loop lib x bar_width (zip_cycles (data s) (cycle palette) (cycle hatch_list))
                offset s)
              (\<lambda>s. and_then (case xlabel of None \<Rightarrow> (None, s) | Some l \<Rightarrow> invoke lib (Set_xlabel l) s)
              (\<lambda>s. and_then (case ylabel of None \<Rightarrow> (None, s) | Some l \<Rightarrow> invoke lib (Set_ylabel l) s)
              (\<lambda>s. and_then (invoke lib (Set_xticks x) s)
              (\<lambda>s. and_then (invoke lib (Set_xticklabels (xtick_labels s)) s)
              (\<lambda>s. and_then (invoke lib (Tick_params ''both'' 0) s)
              (\<lambda>s. invoke lib (Grid False ''x'') s)))))))"

subsection \<open>\<^verbatim>\<open>bar_plot\<close>\<close>

text \<open>
  \<open>figsize\<close> is the module's default figure size, computed at import time from the
  column width of the document class (\<^verbatim>\<open>pubplot\<close>, not part of the module): a
  parameter here.
\<close>

definition bar_plot ::
  "library \<Rightarrow> real list \<Rightarrow> string option \<Rightarrow> string option \<Rightarrow> string \<Rightarrow> path \<Rightarrow>
   real list option \<Rightarrow> kwargs option \<Rightarrow> bool \<Rightarrow> number \<Rightarrow> state \<Rightarrow> outcome" where
  "bar_plot lib figsize xlabel ylabel fig_name dest_dir set_figsize legend_kwargs hide_legend
     width_scale s =
    and_then (invoke lib Subplots s)
      (\<lambda>s. and_then (bar_subplot lib xlabel ylabel width_scale s)
      (\<lambda>s. let set_figsize = (case set_figsize of None \<Rightarrow> figsize | Some sz \<Rightarrow> sz)
            in and_then (if \<not> hide_legend then invoke lib (Legend legend_kwargs) s else (None, s))
      (\<lambda>s. and_then (invoke lib (Set_size_inches set_figsize) s)
      (\<lambda>s. and_then (invoke lib (Tight_layout 0.1) s)
      (\<lambda>s. and_then (invoke lib (Savefig (truediv dest_dir (fig_name @ ''.pdf''))) s)
      (\<lambda>s. invoke lib (Savefig (truediv dest_dir (fig_name @ ''.png''))) s))))))"

subsection \<open>Observing a call\<close>

text \<open>
  The calls a run issued are those it appended to the library's state; its bar calls
  are the \<^verbatim>\<open>ax.bar\<close> calls among them, in the order of issue.
\<close>

definition issued :: "state \<Rightarrow> outcome \<Rightarrow> call list" where
  "issued s r = drop (length (ax s)) (ax (snd r))"

fun bar_of :: "call \<Rightarrow> bar_args option" where
  "bar_of (Bar b) = Some b"
| "bar_of _ = None"

definition bars :: "call list \<Rightarrow> bar_args list" where
  "bars cs = List.map_filter bar_of cs"

fun file_of :: "call \<Rightarrow> path option" where
  "file_of (Savefig p) = Some p"
| "file_of _ = None"

definition files :: "call list \<Rightarrow> path list" where
  "files cs = List.map_filter file_of cs"

definition returns :: "outcome \<Rightarrow> bool" where
  "returns r \<longleftrightarrow> fst r = None"

text \<open>
  What a call leaves behind once it is over. \<^verbatim>\<open>plt.subplots()\<close> makes a figure, which
  pyplot keeps until it is closed, and the module closes none; \<^verbatim>\<open>plt.savefig\<close> writes
  a file. Every other call works on the figure or the axes that it is a method of.
\<close>

fun creates :: "call \<Rightarrow> bool" where
  "creates Subplots = True"
| "creates (Savefig p) = True"
| "creates _ = False"

definition created :: "call list \<Rightarrow> call list" where
  "created cs = filter creates cs"

text \<open>The library that accepts every call.\<close>

definition accepting :: library where
  "accepting = (\<lambda>past c. None)"

text \<open>The library that refuses every call.\<close>

definition refusing :: library where
  "refusing = (\<lambda>past c. Some ''refused'')"

subsection \<open>The layout as the specification words it\<close>

text \<open>
  With \<open>m\<close> series and \<open>n\<close> category slots: the width of a bar, the offset of the
  first series, the centre of bar \<open>j\<close> in slot \<open>i\<close>, the position array of series
  \<open>j\<close>, and the colour and hatch of series \<open>j\<close>.
\<close>

definition spec_bar_width :: "real \<Rightarrow> nat \<Rightarrow> real" where
  "spec_bar_width width_scale m = width_scale / real m"

definition spec_initial_offset :: "real \<Rightarrow> nat \<Rightarrow> real" where
  "spec_initial_offset width_scale m = spec_bar_width width_scale m * (1 - real m) / 2"

definition spec_center :: "real \<Rightarrow> nat \<Rightarrow> nat \<Rightarrow> nat \<Rightarrow> real" where
  "spec_center width_scale m j i =
    real i + spec_initial_offset width_scale m + real j * spec_bar_width width_scale m"

definition spec_positions :: "real \<Rightarrow> nat \<Rightarrow> nat \<Rightarrow> nat \<Rightarrow> real list" where
  "spec_positions width_scale m n j = map (spec_center width_scale m j) [0..<n]"

definition assign_style :: "nat \<Rightarrow> string \<times> string" where
  "assign_style j = (palette ! (j mod 10), hatch_list ! (j mod 4))"

text \<open>The \<^verbatim>\<open>ax.bar\<close> call for series \<open>j\<close> of \<open>ds\<close> over \<open>n\<close> slots, and all of them.\<close>

definition layout_bar :: "real \<Rightarrow> nat \<Rightarrow> series list \<Rightarrow> nat \<Rightarrow> bar_args" where
  "layout_bar width_scale n ds j =
    \<lparr>arg_x = spec_positions width_scale (length ds) n j, arg_height = vals (ds ! j),
     arg_width = spec_bar_width width_scale (length ds), arg_yerr = errors (ds ! j),
     arg_label = label (ds ! j), arg_fill = False, arg_hatch = snd (assign_style j),
     arg_edgecolor = fst (assign_style j), arg_elinewidth = elinewidth,
     arg_capsize = capsize, arg_capthick = capthick\<rparr>"

definition layout :: "real \<Rightarrow> nat \<Rightarrow> series list \<Rightarrow> bar_args list" where
  "layout width_scale n ds = map (layout_bar width_scale n ds) [0..<length ds]"

subsection \<open>Notions used in the proofs\<close>

text \<open>
  \<open>cycle_at xs it k\<close>: the iterator \<open>it\<close> over \<open>xs\<close> has handed out \<open>k\<close> elements.
  \<open>loop_bar\<close> is the record the loop body builds, \<open>loop_bars\<close> the records of a whole
  run of the loop. \<open>subplot_tail\<close> is what \<^verbatim>\<open>bar_subplot\<close> does after the loop.
  \<open>appending P f\<close>: all that \<open>f\<close> does to the state is to issue calls, and these
  satisfy \<open>P\<close>; \<open>quiet\<close> calls are neither bar calls nor file writes nor requests for a
  figure.
\<close>

definition cycle_at :: "'a list \<Rightarrow> 'a cycle_iter \<Rightarrow> nat \<Rightarrow> bool" where
  "cycle_at xs it k \<longleftrightarrow>
     xs \<noteq> [] \<and> fst it = xs \<and>
     (snd it = drop (k mod length xs) xs \<or> snd it = [] \<and> k mod length xs = 0)"

definition loop_bar :: "int list \<Rightarrow> real \<Rightarrow> real \<Rightarrow> series \<times> string \<times> string \<Rightarrow> bar_args" where
  "loop_bar x bw off t =
    (case t of (d, color, hatch) \<Rightarrow>
      \<lparr>arg_x = shift x off, arg_height = vals d, arg_width = bw,
       arg_yerr = errors d, arg_label = label d, arg_fill = False,
       arg_hatch = hatch, arg_edgecolor = color,
       arg_elinewidth = elinewidth, arg_capsize = capsize, arg_capthick = capthick\<rparr>)"

definition loop_bars :: "int list \<Rightarrow> real \<Rightarrow> real \<Rightarrow> (series \<times> string \<times> string) list \<Rightarrow> bar_args list" where
  "loop_bars x bw off ts = map (\<lambda>i. loop_bar x bw (off + real i * bw) (ts ! i)) [0..<length ts]"

definition quiet :: "call list \<Rightarrow> bool" where
  "quiet cs \<longleftrightarrow> bars cs = [] \<and> files cs = [] \<and> Subplots \<notin> set cs"

definition appending :: "(call list \<Rightarrow> bool) \<Rightarrow> (state \<Rightarrow> outcome) \<Rightarrow> bool" where
  "appending P f \<longleftrightarrow> (\<forall>s. \<exists>cs. snd (f s) = s\<lparr>ax := ax s @ cs\<rparr> \<and> P cs)"

definition subplot_tail :: "library \<Rightarrow> string option \<Rightarrow> string option \<Rightarrow> int list \<Rightarrow> state \<Rightarrow> outcome" where
  "subplot_tail lib xlabel ylabel x =
     (\<lambda>s. and_then (case xlabel of None \<Rightarrow> (None, s) | Some l \<Rightarrow> invoke lib (Set_xlabel l) s)
     (\<lambda>s. and_then (case ylabel of None \<Rightarrow> (None, s) | Some l \<Rightarrow> invoke lib (Set_ylabel l) s)
     (\<lambda>s. and_then (invoke lib (Set_xticks x) s)
     (\<lambda>s. and_then (invoke lib (Set_xticklabels (xtick_labels s)) s)
     (\<lambda>s. and_then (invoke lib (Tick_params ''both'' 0) s)
     (\<lambda>s. invoke lib (Grid False ''x'') s))))))"

text \<open>\<open>plot_tail\<close> is what \<^verbatim>\<open>bar_plot\<close> does after \<^verbatim>\<open>bar_subplot\<close> has returned.\<close>

definition plot_tail ::
  "library \<Rightarrow> real list \<Rightarrow> string \<Rightarrow> path \<Rightarrow> real list option \<Rightarrow> kwargs option \<Rightarrow> bool \<Rightarrow>
   state \<Rightarrow> outcome" where
  "plot_tail lib figsize fig_name dest_dir set_figsize legend_kwargs hide_legend =
     (\<lambda>s. let set_figsize = (case set_figsize of None \<Rightarrow> figsize | Some sz \<Rightarrow> sz)
            in and_then (if \<not> hide_legend then invoke lib (Legend legend_kwargs) s else (None, s))
      (\<lambda>s. and_then (invoke lib (Set_size_inches set_figsize) s)
      (\<lambda>s. and_then (invoke lib (Tight_layout 0.1) s)
      (\<lambda>s. and_then (invoke lib (Savefig (truediv dest_dir (fig_name @ ''.pdf''))) s)
      (\<lambda>s. invoke lib (Savefig (truediv dest_dir (fig_name @ ''.png''))) s)))))"

text \<open>
  \<open>library_error e\<close>: if \<open>e\<close> is an error, the library raised it (the module's own
  division did not).
\<close>

definition library_error :: "py_error option \<Rightarrow> bool" where
  "library_error e \<longleftrightarrow> e \<noteq> Some ZeroDivisionError"

subsection \<open>Files and directories\<close>

text \<open>
  \<open>inside d p\<close>: the path \<open>p\<close> is \<open>d\<close> followed by at least one further component,
  none of them \<^verbatim>\<open>'..'\<close>; a file at \<open>p\<close> is then in the directory \<open>d\<close> or below it.
  \<open>absolute name\<close>: the string starts with the separator.
\<close>

definition inside :: "path \<Rightarrow> path \<Rightarrow> bool" where
  "inside d p \<longleftrightarrow>
     path_root p = path_root d \<and>
     length (path_parts d) < length (path_parts p) \<and>
     take (length (path_parts d)) (path_parts p) = path_parts d \<and>
     ''..'' \<notin> set (drop (length (path_parts d)) (path_parts p))"

definition absolute :: "string \<Rightarrow> bool" where
  "absolute name \<longleftrightarrow> name \<noteq> [] \<and> hd name = CHR ''/''"

subsection \<open>The data of \<^verbatim>\<open>example_bar_plot\<close>\<close>

definition example_xlabel :: string where
  "example_xlabel = ''Age group''"

definition example_ylabel :: string where
  "example_ylabel = ''Fraction of people ('' @ [CHR 0x5C] @ ''%)''"

definition example_xtick_labels :: "string list" where
  "example_xtick_labels = [''0--12'', ''13--17'', ''18--29'', ''30--49'', ''50+'']"

definition example_data :: "series list" where
  "example_data =
    [\<lparr>label = ''Cilantro'', vals = [12, 32, 48, 41, 85], errors = [1, 2, 1, 10, 20]\<rparr>,
     \<lparr>label = ''Basil'', vals = [84, 72, 99, 87, 60], errors = [5, 6, 2, 10, 18]\<rparr>]"

definition example_state :: state where
  "example_state = \<lparr>ax = [], xtick_labels = example_xtick_labels, data = example_data\<rparr>"

subsection \<open>Further inputs\<close>

text \<open>Twelve series over one category: more series than colours and than hatches.\<close>

definition twelve_series :: "series list" where
  "twelve_series = map (\<lambda>n. \<lparr>label = ''series'', vals = [real n], errors = [0]\<rparr>) [0..<12]"

definition twelve_state :: state where
  "twelve_state = \<lparr>ax = [], xtick_labels = [''A''], data = twelve_series\<rparr>"

subsection \<open>Series of the wrong length\<close>

text \<open>
  A series is mismatched when it has not one value per category label. A call is
  rejected before rendering when it raises without having issued any call to the
  library. \<open>shape_checking\<close> is a library that refuses a bar call whose heights are not
  as many as its positions, and accepts every other call.
\<close>

definition mismatched :: "state \<Rightarrow> bool" where
  "mismatched s \<longleftrightarrow> (\<exists>d \<in> set (data s). length (vals d) \<noteq> length (xtick_labels s))"

definition rejected_before_rendering :: "state \<Rightarrow> outcome \<Rightarrow> bool" where
  "rejected_before_rendering s r \<longleftrightarrow> fst r \<noteq> None \<and> issued s r = []"

definition shape_checking :: library where
  "shape_checking =
    (\<lambda>past c. case bar_of c of
       None \<Rightarrow> None
     | Some b \<Rightarrow> if length (arg_height b) = length (arg_x b) then None else Some ''shape mismatch'')"

text \<open>Three values against five category labels.\<close>

definition mismatch_state :: state where
  "mismatch_state =
    \<lparr>ax = [], xtick_labels = [''A'', ''B'', ''C'', ''D'', ''E''],
     data = [\<lparr>label = ''short'', vals = [1, 2, 3], errors = [0, 0, 0]\<rparr>]\<rparr>"

section \<open>Properties\<close>

subsection \<open>The cycle iterators\<close>

lemma cycle_at_start: "xs \<noteq> [] \<Longrightarrow> cycle_at xs (cycle xs) 0"
  by (simp add: cycle_at_def cycle_def)

lemma cycle_next_at:
  assumes "cycle_at xs it k"
  shows "\<exists>it'. cycle_next it = Some (xs ! (k mod length xs), it') \<and> cycle_at xs it' (Suc k)"
proof -
  obtain saved rest where it: "it = (saved, rest)" by (cases it)
  from assms it have ne: "xs \<noteq> []" and saved: "saved = xs"
    by (simp_all add: cycle_at_def)
  let ?n = "length xs" and ?m = "k mod length xs"
  from ne have m: "?m < ?n" by simp
  from assms it consider (mid) "rest = drop ?m xs" | (over) "rest = []" "?m = 0"
    by (auto simp: cycle_at_def)
  then show ?thesis
  proof cases
    case mid
    from m have d: "drop ?m xs = xs ! ?m # drop (Suc ?m) xs"
      by (simp add: Cons_nth_drop_Suc)
    have "cycle_at xs (xs, drop (Suc ?m) xs) (Suc k)"
    proof (cases "Suc ?m < ?n")
      case True
      then have "Suc k mod ?n = Suc ?m" by (simp add: mod_Suc)
      with ne show ?thesis by (simp add: cycle_at_def)
    next
      case False
      with m have e: "Suc ?m = ?n" by simp
      then have "Suc k mod ?n = 0" by (simp add: mod_Suc)
      with ne e show ?thesis by (simp add: cycle_at_def)
    qed
    with it saved mid d show ?thesis by simp
  next
    case over
    from ne obtain z zs where xs: "xs = z # zs" by (cases xs) auto
    have "cycle_at xs (xs, zs) (Suc k)"
    proof (cases "zs = []")
      case True
      with xs show ?thesis by (simp add: cycle_at_def)
    next
      case False
      with xs over have "Suc k mod ?n = 1" by (simp add: mod_Suc)
      with xs show ?thesis by (simp add: cycle_at_def)
    qed
    with it saved over xs show ?thesis by simp
  qed
qed

lemma zip_cycles_at:
  "cycle_at xs colors j \<Longrightarrow> cycle_at ys hatches j \<Longrightarrow>
   zip_cycles ds colors hatches =
     map (\<lambda>i. (ds ! i, xs ! ((j + i) mod length xs), ys ! ((j + i) mod length ys))) [0..<length ds]"
proof (induction ds arbitrary: colors hatches j)
  case Nil
  then show ?case by simp
next
  case (Cons d ds)
  from cycle_next_at [OF Cons.prems(1)] obtain colors'
    where c: "cycle_next colors = Some (xs ! (j mod length xs), colors')"
      and c': "cycle_at xs colors' (Suc j)" by blast
  from cycle_next_at [OF Cons.prems(2)] obtain hatches'
    where h: "cycle_next hatches = Some (ys ! (j mod length ys), hatches')"
      and h': "cycle_at ys hatches' (Suc j)" by blast
  from Cons.IH [OF c' h'] c h show ?case
    by (simp add: map_upt_Suc del: upt_Suc)
qed

lemma bars_append: "bars (cs @ cs') = bars cs @ bars cs'"
  by (simp add: bars_def List.map_filter_def)

lemma bars_map_Bar: "bars (map Bar bs) = bs"
  by (induction bs) (simp_all add: bars_def List.map_filter_def)

lemma files_append: "files (cs @ cs') = files cs @ files cs'"
  by (simp add: files_def List.map_filter_def)

lemma files_map_Bar: "files (map Bar bs) = []"
  by (induction bs) (simp_all add: files_def List.map_filter_def)

lemma snd_invoke: "snd (invoke lib c s) = s\<lparr>ax := ax s @ [c]\<rparr>"
  by (simp add: invoke_def)

lemma loop_bars_Nil: "loop_bars x bw off [] = []"
  by (simp add: loop_bars_def)

lemma loop_bars_Cons: "loop_bars x bw off (t # ts) = loop_bar x bw off t # loop_bars x bw (off + bw) ts"
  by (simp add: loop_bars_def map_upt_Suc algebra_simps del: upt_Suc)

lemma bar_loop_issues:
  "\<exists>k. k \<le> length ts \<and> (ts \<noteq> [] \<longrightarrow> 1 \<le> k) \<and>
       snd (bar_loop lib x bw ts off s) = s\<lparr>ax := ax s @ map Bar (take k (loop_bars x bw off ts))\<rparr> \<and>
       (fst (bar_loop lib x bw ts off s) = None \<longrightarrow> k = length ts)"
proof (induction ts arbitrary: off s)
  case Nil
  then show ?case by (simp add: loop_bars_Nil)
next
  case (Cons t ts)
  obtain d color hatch where t: "t = (d, color, hatch)" by (cases t)
  let ?s1 = "s\<lparr>ax := ax s @ [Bar (loop_bar x bw off t)]\<rparr>"
  show ?case
  proof (cases "lib (ax s) (Bar (loop_bar x bw off t))")
    case (Some msg)
    with t have "bar_loop lib x bw (t # ts) off s = (Some (Raised_by_library msg), ?s1)"
      by (simp add: invoke_def and_then_def loop_bar_def)
    then show ?thesis
      by (intro exI [of _ 1]) (simp add: loop_bars_Cons)
  next
    case None
    with t have step: "bar_loop lib x bw (t # ts) off s = bar_loop lib x bw ts (off + bw) ?s1"
      by (simp add: invoke_def and_then_def loop_bar_def)
    from Cons.IH [of "off + bw" ?s1] obtain k where
      ih: "k \<le> length ts \<and> (ts \<noteq> [] \<longrightarrow> 1 \<le> k) \<and>
        snd (bar_loop lib x bw ts (off + bw) ?s1) =
          ?s1\<lparr>ax := ax ?s1 @ map Bar (take k (loop_bars x bw (off + bw) ts))\<rparr> \<and>
        (fst (bar_loop lib x bw ts (off + bw) ?s1) = None \<longrightarrow> k = length ts)" ..
    note k = ih [THEN conjunct1]
      and snd = ih [THEN conjunct2, THEN conjunct2, THEN conjunct1]
      and fin = ih [THEN conjunct2, THEN conjunct2, THEN conjunct2]
    have 1: "Suc k \<le> length (t # ts)" using k by simp
    have 2: "snd (bar_loop lib x bw (t # ts) off s) =
        s\<lparr>ax := ax s @ map Bar (take (Suc k) (loop_bars x bw off (t # ts)))\<rparr>"
      unfolding step snd loop_bars_Cons by simp
    have 3: "fst (bar_loop lib x bw (t # ts) off s) = None \<longrightarrow> Suc k = length (t # ts)"
      unfolding step using fin by simp
    have 4: "t # ts \<noteq> [] \<longrightarrow> 1 \<le> Suc k" by simp
    from 1 4 2 3 show ?thesis
      by (rule_tac x = "Suc k" in exI) (intro conjI)
  qed
qed

lemma quiet_Nil: "quiet []"
  by (simp add: quiet_def bars_def files_def List.map_filter_def)

lemma quiet_append: "quiet cs \<Longrightarrow> quiet cs' \<Longrightarrow> quiet (cs @ cs')"
  by (simp add: quiet_def bars_append files_append)

lemma quiet_single: "bar_of c = None \<Longrightarrow> file_of c = None \<Longrightarrow> c \<noteq> Subplots \<Longrightarrow> quiet [c]"
  by (simp add: quiet_def bars_def files_def List.map_filter_def)

lemma appending_skip: "P [] \<Longrightarrow> appending P (\<lambda>s. (None, s))"
  unfolding appending_def by (intro allI exI [of _ "[]"]) simp

lemma appending_invoke: "(\<And>s. P [c s]) \<Longrightarrow> appending P (\<lambda>s. invoke lib (c s) s)"
  unfolding appending_def by (intro allI exI [of _ "[c s]" for s]) (simp add: invoke_def)

lemma appending_and_then:
  assumes f: "appending P f" and g: "appending P g"
    and app: "\<And>cs cs'. P cs \<Longrightarrow> P cs' \<Longrightarrow> P (cs @ cs')"
  shows "appending P (\<lambda>s. and_then (f s) g)"
  unfolding appending_def
proof
  fix s
  from f obtain cs where cs: "snd (f s) = s\<lparr>ax := ax s @ cs\<rparr>" and p: "P cs"
    unfolding appending_def by blast
  obtain e s1 where r: "f s = (e, s1)" by (cases "f s")
  with cs have s1: "s1 = s\<lparr>ax := ax s @ cs\<rparr>" by simp
  show "\<exists>cs. snd (and_then (f s) g) = s\<lparr>ax := ax s @ cs\<rparr> \<and> P cs"
  proof (cases e)
    case (Some err)
    with r s1 p show ?thesis by (auto simp: and_then_def)
  next
    case None
    from g obtain cs' where cs': "snd (g s1) = s1\<lparr>ax := ax s1 @ cs'\<rparr>" and p': "P cs'"
      unfolding appending_def by blast
    from None r have "and_then (f s) g = g s1" by (simp add: and_then_def)
    with cs' s1 have "snd (and_then (f s) g) = s\<lparr>ax := ax s @ cs @ cs'\<rparr>" by simp
    with app [OF p p'] show ?thesis by blast
  qed
qed

lemma returns_and_then: "returns (and_then r f) \<longleftrightarrow> returns r \<and> returns (f (snd r))"
  by (cases r) (auto simp: returns_def and_then_def split: option.splits)

lemma snd_and_then: "returns r \<Longrightarrow> snd (and_then r f) = snd (f (snd r))"
  by (cases r) (auto simp: returns_def and_then_def split: option.splits)

lemma appending_label:
  "appending quiet (\<lambda>s. case l of None \<Rightarrow> (None, s) | Some v \<Rightarrow> invoke lib (Set_xlabel v) s)"
  "appending quiet (\<lambda>s. case l of None \<Rightarrow> (None, s) | Some v \<Rightarrow> invoke lib (Set_ylabel v) s)"
  by (cases l; simp add: appending_skip appending_invoke quiet_Nil quiet_single)+

lemma appending_subplot_tail: "appending quiet (subplot_tail lib xlabel ylabel x)"
  unfolding subplot_tail_def
  by (intro appending_and_then appending_label appending_invoke quiet_append quiet_single) simp_all

lemma length_palette: "length palette = 10"
  by (simp add: palette_def)

lemma length_hatch_list: "length hatch_list = 4"
  by (simp add: hatch_list_def)

lemma zip_cycles_palette:
  "zip_cycles ds (cycle palette) (cycle hatch_list) =
     map (\<lambda>i. (ds ! i, palette ! (i mod 10), hatch_list ! (i mod 4))) [0..<length ds]"
proof -
  have "palette \<noteq> []" and "hatch_list \<noteq> []"
    using length_palette length_hatch_list by auto
  then have "cycle_at palette (cycle palette) 0" and "cycle_at hatch_list (cycle hatch_list) 0"
    by (simp_all add: cycle_at_start)
  from zip_cycles_at [OF this, of ds] show ?thesis
    by (simp add: length_palette length_hatch_list)
qed

lemma loop_bars_layout:
  assumes "ds \<noteq> []"
  shows "loop_bars (arange n) (width_scale / real (length ds))
           (width_scale / real (length ds) * real_of_int (1 - int (length ds)) / 2)
           (zip_cycles ds (cycle palette) (cycle hatch_list)) =
         layout width_scale n ds"
  unfolding loop_bars_def layout_def zip_cycles_palette
  by (rule map_cong)
    (simp_all add: loop_bar_def layout_bar_def spec_positions_def spec_center_def
      spec_initial_offset_def spec_bar_width_def assign_style_def shift_def arange_def o_def)

lemma and_then_skip: "and_then (None, s) f = f s"
  by (simp add: and_then_def)

lemma bar_subplot_split:
  "data s \<noteq> [] \<Longrightarrow>
   bar_subplot lib xlabel ylabel width_scale s =
     and_then
       (bar_loop lib (arange (length (xtick_labels s))) (value_of width_scale / real (length (data s)))
         (zip_cycles (data s) (cycle palette) (cycle hatch_list))
         (value_of width_scale / real (length (data s)) * real_of_int (1 - int (length (data s))) / 2) s)
       (subplot_tail lib xlabel ylabel (arange (length (xtick_labels s))))"
  by (simp add: bar_subplot_def subplot_tail_def Let_def)

lemma bar_subplot_empty:
  "data s = [] \<Longrightarrow> kind_of width_scale = Python_float \<Longrightarrow>
   bar_subplot lib xlabel ylabel width_scale s = (Some ZeroDivisionError, s)"
  by (simp add: bar_subplot_def)

lemma bar_subplot_empty_numpy:
  "data s = [] \<Longrightarrow> kind_of width_scale = Numpy_float64 \<Longrightarrow>
   bar_subplot lib xlabel ylabel width_scale s =
     subplot_tail lib xlabel ylabel (arange (length (xtick_labels s))) s"
  by (simp add: bar_subplot_def subplot_tail_def Let_def and_then_skip)

lemma bar_subplot_empty_quiet:
  assumes "data s = []"
  shows "\<exists>cs. snd (bar_subplot lib xlabel ylabel width_scale s) = s\<lparr>ax := ax s @ cs\<rparr> \<and> quiet cs"
proof (cases "kind_of width_scale")
  case Python_float
  with assms have "snd (bar_subplot lib xlabel ylabel width_scale s) = s\<lparr>ax := ax s @ []\<rparr>"
    by (simp add: bar_subplot_empty)
  with quiet_Nil show ?thesis
    by (intro exI [of _ "[]"] conjI)
next
  case Numpy_float64
  from appending_subplot_tail [of lib xlabel ylabel "arange (length (xtick_labels s))"]
  show ?thesis
    unfolding bar_subplot_empty_numpy [OF assms Numpy_float64] appending_def
    by (elim allE [of _ s])
qed

lemma bar_subplot_issues:
  assumes ne: "data s \<noteq> []"
  shows "\<exists>k cs. 1 \<le> k \<and> k \<le> length (data s) \<and>
           snd (bar_subplot lib xlabel ylabel width_scale s) =
             s\<lparr>ax := ax s @ map Bar (take k (layout (value_of width_scale) (length (xtick_labels s)) (data s))) @ cs\<rparr> \<and>
           quiet cs \<and>
           (returns (bar_subplot lib xlabel ylabel width_scale s) \<longrightarrow> k = length (data s))"
proof -
  let ?x = "arange (length (xtick_labels s))" and ?bw = "value_of width_scale / real (length (data s))"
  let ?ts = "zip_cycles (data s) (cycle palette) (cycle hatch_list)"
  let ?off = "?bw * real_of_int (1 - int (length (data s))) / 2"
  let ?r1 = "bar_loop lib ?x ?bw ?ts ?off s"
  let ?tail = "subplot_tail lib xlabel ylabel ?x"
  let ?L = "layout (value_of width_scale) (length (xtick_labels s)) (data s)"
  have len: "length ?ts = length (data s)"
    by (simp add: zip_cycles_palette)
  from bar_loop_issues [of ?ts lib ?x ?bw ?off s] obtain k where
    ih: "k \<le> length ?ts \<and> (?ts \<noteq> [] \<longrightarrow> 1 \<le> k) \<and>
         snd ?r1 = s\<lparr>ax := ax s @ map Bar (take k (loop_bars ?x ?bw ?off ?ts))\<rparr> \<and>
         (fst ?r1 = None \<longrightarrow> k = length ?ts)" ..
  from ih len have k: "k \<le> length (data s)" by simp
  from ih len ne have k1: "1 \<le> k" by auto
  from ih have s1: "snd ?r1 = s\<lparr>ax := ax s @ map Bar (take k ?L)\<rparr>"
    by (simp only: loop_bars_layout [OF ne])
  from ih len have fin: "fst ?r1 = None \<longrightarrow> k = length (data s)" by simp
  have split: "bar_subplot lib xlabel ylabel width_scale s = and_then ?r1 ?tail"
    by (rule bar_subplot_split [OF ne])
  let ?r = "bar_subplot lib xlabel ylabel width_scale s"
  show ?thesis
  proof (cases "returns ?r1")
    case False
    then have same: "and_then ?r1 ?tail = ?r1"
      by (cases ?r1) (auto simp: returns_def and_then_def)
    from s1 have 3: "snd ?r = s\<lparr>ax := ax s @ map Bar (take k ?L) @ []\<rparr>"
      unfolding split same by simp
    from False have 5: "returns ?r \<longrightarrow> k = length (data s)"
      unfolding split same by simp
    from k1 k 3 quiet_Nil 5 show ?thesis
      by (rule_tac x = k in exI, rule_tac x = "[]" in exI) (intro conjI)
  next
    case True
    from appending_subplot_tail [of lib xlabel ylabel ?x] obtain cs where
      cs: "snd (?tail (snd ?r1)) = (snd ?r1)\<lparr>ax := ax (snd ?r1) @ cs\<rparr> \<and> quiet cs"
      unfolding appending_def by (elim allE [of _ "snd ?r1"] exE)
    from cs have 4: "quiet cs" ..
    have a: "snd (and_then ?r1 ?tail) = snd (?tail (snd ?r1))"
      by (rule snd_and_then [OF True])
    from cs have b: "snd (?tail (snd ?r1)) = (snd ?r1)\<lparr>ax := ax (snd ?r1) @ cs\<rparr>" ..
    have 3: "snd ?r = s\<lparr>ax := ax s @ map Bar (take k ?L) @ cs\<rparr>"
      unfolding split a unfolding b unfolding s1 by simp
    from True fin have 5: "returns ?r \<longrightarrow> k = length (data s)"
      unfolding returns_def by blast
    from k1 k 3 4 5 show ?thesis
      by (rule_tac x = k in exI, rule_tac x = cs in exI) (intro conjI)
  qed
qed

subsection \<open>Errors and the calls issued by \<^verbatim>\<open>bar_subplot\<close>\<close>

lemma fst_invoke: "library_error (fst (invoke lib c s))"
  by (simp add: invoke_def library_error_def split: option.splits)

lemma fst_and_then:
  "library_error (fst r) \<Longrightarrow> (\<And>s. library_error (fst (f s))) \<Longrightarrow> library_error (fst (and_then r f))"
  by (cases r) (auto simp: and_then_def split: option.splits)

lemma library_error_None: "library_error None"
  by (simp add: library_error_def)

lemma bar_loop_error: "library_error (fst (bar_loop lib x bw ts off s))"
proof (induction ts arbitrary: off s)
  case Nil
  show ?case by (simp add: library_error_None)
next
  case (Cons t ts)
  obtain d color hatch where t: "t = (d, color, hatch)" by (cases t)
  show ?case unfolding t bar_loop.simps
    by (rule fst_and_then) (rule fst_invoke, rule Cons.IH)
qed

lemma subplot_tail_error: "library_error (fst (subplot_tail lib xlabel ylabel x s))"
  unfolding subplot_tail_def
  by (intro fst_and_then fst_invoke; cases xlabel; cases ylabel; simp add: library_error_None fst_invoke)

lemma bar_subplot_error:
  "data s \<noteq> [] \<Longrightarrow> library_error (fst (bar_subplot lib xlabel ylabel width_scale s))"
  unfolding bar_subplot_split
  by (intro fst_and_then bar_loop_error subplot_tail_error)

lemma bar_subplot_error_numpy:
  "kind_of width_scale = Numpy_float64 \<Longrightarrow>
   library_error (fst (bar_subplot lib xlabel ylabel width_scale s))"
  by (cases "data s = []") (simp_all add: bar_subplot_empty_numpy subplot_tail_error bar_subplot_error)

lemma length_layout: "length (layout width_scale n ds) = length ds"
  by (simp add: layout_def)

lemma nth_layout: "j < length ds \<Longrightarrow> layout width_scale n ds ! j = layout_bar width_scale n ds j"
  by (simp add: layout_def)

lemma issued_append: "snd r = s\<lparr>ax := ax s @ cs\<rparr> \<Longrightarrow> issued s r = cs"
  by (simp add: issued_def)

lemma bar_subplot_bars:
  assumes ne: "data s \<noteq> []"
  shows "\<exists>k. 1 \<le> k \<and> k \<le> length (data s) \<and>
           bars (issued s (bar_subplot lib xlabel ylabel width_scale s)) =
             take k (layout (value_of width_scale) (length (xtick_labels s)) (data s)) \<and>
           (returns (bar_subplot lib xlabel ylabel width_scale s) \<longrightarrow> k = length (data s))"
proof -
  let ?r = "bar_subplot lib xlabel ylabel width_scale s"
  let ?L = "layout (value_of width_scale) (length (xtick_labels s)) (data s)"
  from bar_subplot_issues [OF ne, of lib xlabel ylabel width_scale] obtain k cs where
    1: "1 \<le> k" and 2: "k \<le> length (data s)"
    and 3: "snd ?r = s\<lparr>ax := ax s @ map Bar (take k ?L) @ cs\<rparr>"
    and 4: "quiet cs" and 5: "returns ?r \<longrightarrow> k = length (data s)"
    by (elim exE conjE)
  from 3 have "issued s ?r = map Bar (take k ?L) @ cs" by (rule issued_append)
  with 4 have 6: "bars (issued s ?r) = take k ?L"
    by (simp add: bars_append bars_map_Bar quiet_def)
  from 1 2 6 5 show ?thesis
    by (rule_tac x = k in exI) (intro conjI)
qed

lemma bar_subplot_empty_bars:
  assumes "data s = []"
  shows "bars (issued s (bar_subplot lib xlabel ylabel width_scale s)) = []"
    and "files (issued s (bar_subplot lib xlabel ylabel width_scale s)) = []"
proof -
  from bar_subplot_empty_quiet [OF assms, of lib xlabel ylabel width_scale] obtain cs where
    "snd (bar_subplot lib xlabel ylabel width_scale s) = s\<lparr>ax := ax s @ cs\<rparr>" and "quiet cs"
    by (elim exE conjE)
  then show "bars (issued s (bar_subplot lib xlabel ylabel width_scale s)) = []"
    and "files (issued s (bar_subplot lib xlabel ylabel width_scale s)) = []"
    by (simp_all add: issued_def quiet_def)
qed

lemma bar_subplot_bars_returns:
  assumes "returns (bar_subplot lib xlabel ylabel width_scale s)"
  shows "bars (issued s (bar_subplot lib xlabel ylabel width_scale s)) =
           layout (value_of width_scale) (length (xtick_labels s)) (data s)"
proof (cases "data s = []")
  case True
  then show ?thesis
    by (simp add: bar_subplot_empty_bars layout_def)
next
  case False
  from bar_subplot_bars [OF False, of lib xlabel ylabel width_scale] assms show ?thesis
    by (auto simp: length_layout)
qed

lemma bar_subplot_bars_nth:
  assumes "j < length (bars (issued s (bar_subplot lib xlabel ylabel width_scale s)))"
  shows "j < length (data s) \<and>
         bars (issued s (bar_subplot lib xlabel ylabel width_scale s)) ! j =
           layout_bar (value_of width_scale) (length (xtick_labels s)) (data s) j"
proof (cases "data s = []")
  case True
  with assms show ?thesis
    by (simp add: bar_subplot_empty_bars)
next
  case False
  from bar_subplot_bars [OF False, of lib xlabel ylabel width_scale] assms show ?thesis
    by (auto simp: length_layout nth_layout)
qed

lemma bar_subplot_bars_first:
  assumes "data s \<noteq> []"
  shows "0 < length (bars (issued s (bar_subplot lib xlabel ylabel width_scale s)))"
proof -
  from bar_subplot_bars [OF assms, of lib xlabel ylabel width_scale] obtain k where
    "1 \<le> k" and "k \<le> length (data s)"
    and "bars (issued s (bar_subplot lib xlabel ylabel width_scale s)) =
           take k (layout (value_of width_scale) (length (xtick_labels s)) (data s))"
    by (elim exE conjE)
  then show ?thesis by (simp add: length_layout)
qed

lemma bar_loop_accepting: "returns (bar_loop accepting x bw ts off s)"
  by (induction ts arbitrary: off s)
    (auto simp: returns_def invoke_def and_then_def accepting_def)

lemma subplot_tail_accepting: "returns (subplot_tail accepting xlabel ylabel x s)"
  by (cases xlabel; cases ylabel)
    (simp_all add: subplot_tail_def returns_def invoke_def and_then_def accepting_def)

lemma bar_subplot_accepting:
  "data s \<noteq> [] \<Longrightarrow> returns (bar_subplot accepting xlabel ylabel width_scale s)"
  by (simp add: bar_subplot_split returns_and_then bar_loop_accepting subplot_tail_accepting)

subsection \<open>The example of the module, run\<close>

lemma example_bars:
  "bars (issued example_state (bar_subplot accepting xlabel ylabel width_scale example_state)) =
     layout (value_of width_scale) 5 example_data"
proof -
  have "data example_state \<noteq> []"
    by (simp add: example_state_def example_data_def)
  then have "returns (bar_subplot accepting xlabel ylabel width_scale example_state)"
    by (rule bar_subplot_accepting)
  then have "bars (issued example_state (bar_subplot accepting xlabel ylabel width_scale example_state)) =
      layout (value_of width_scale) (length (xtick_labels example_state)) (data example_state)"
    by (rule bar_subplot_bars_returns)
  moreover have "length (xtick_labels example_state) = 5"
    by (simp add: example_state_def example_xtick_labels_def)
  moreover have "data example_state = example_data"
    by (simp add: example_state_def)
  ultimately show ?thesis by simp
qed

subsection \<open>Colours and hatches\<close>

text \<open>
  Claim C4. Whatever the series, \<^verbatim>\<open>zip\<close> pairs the series at position \<open>j\<close> with
  \<open>palette[j mod 10]\<close> and \<open>hatch_list[j mod 4]\<close>, and the \<open>j\<close>-th bar call carries
  exactly these (and the label of series \<open>j\<close>); neither depends on the width scale or
  on the number of slots. So the bar call at position \<open>10 + k\<close> has the edge colour of
  the one at position \<open>k\<close>, and the one at position \<open>4 + k\<close> the hatch of the one at
  position \<open>k\<close>.
\<close>

theorem bar_subplot_style:
  "zip_cycles ds (cycle palette) (cycle hatch_list) =
     map (\<lambda>j. (ds ! j, palette ! (j mod 10), hatch_list ! (j mod 4))) [0..<length ds] \<and>
   (j < length (bars (issued s (bar_subplot lib xlabel ylabel width_scale s))) \<longrightarrow>
      arg_edgecolor (bars (issued s (bar_subplot lib xlabel ylabel width_scale s)) ! j) =
        palette ! (j mod 10) \<and>
      arg_hatch (bars (issued s (bar_subplot lib xlabel ylabel width_scale s)) ! j) =
        hatch_list ! (j mod 4) \<and>
      (arg_edgecolor (bars (issued s (bar_subplot lib xlabel ylabel width_scale s)) ! j),
       arg_hatch (bars (issued s (bar_subplot lib xlabel ylabel width_scale s)) ! j)) =
        assign_style j \<and>
      arg_label (bars (issued s (bar_subplot lib xlabel ylabel width_scale s)) ! j) =
        label (data s ! j)) \<and>
   (10 + k < length (bars (issued s (bar_subplot lib xlabel ylabel width_scale s))) \<longrightarrow>
      arg_edgecolor (bars (issued s (bar_subplot lib xlabel ylabel width_scale s)) ! (10 + k)) =
      arg_edgecolor (bars (issued s (bar_subplot lib xlabel ylabel width_scale s)) ! k)) \<and>
   (4 + k < length (bars (issued s (bar_subplot lib xlabel ylabel width_scale s))) \<longrightarrow>
      arg_hatch (bars (issued s (bar_subplot lib xlabel ylabel width_scale s)) ! (4 + k)) =
      arg_hatch (bars (issued s (bar_subplot lib xlabel ylabel width_scale s)) ! k))"
proof -
  let ?B = "bars (issued s (bar_subplot lib xlabel ylabel width_scale s))"
  let ?n = "length (xtick_labels s)"
  have style: "arg_edgecolor (?B ! j) = palette ! (j mod 10) \<and>
      arg_hatch (?B ! j) = hatch_list ! (j mod 4) \<and>
      (arg_edgecolor (?B ! j), arg_hatch (?B ! j)) = assign_style j \<and>
      arg_label (?B ! j) = label (data s ! j)" if "j < length ?B" for j
    using bar_subplot_bars_nth [OF that]
    by (simp add: layout_bar_def assign_style_def)
  have color: "arg_edgecolor (?B ! (10 + k)) = arg_edgecolor (?B ! k)" if "10 + k < length ?B"
  proof -
    from that have "k < length ?B" by simp
    from style [OF that] style [OF this] show ?thesis by simp
  qed
  have hatch: "arg_hatch (?B ! (4 + k)) = arg_hatch (?B ! k)" if "4 + k < length ?B"
  proof -
    from that have "k < length ?B" by simp
    from style [OF that] style [OF this] show ?thesis by simp
  qed
  from style [of j] have 1: "j < length ?B \<longrightarrow>
      arg_edgecolor (?B ! j) = palette ! (j mod 10) \<and>
      arg_hatch (?B ! j) = hatch_list ! (j mod 4) \<and>
      (arg_edgecolor (?B ! j), arg_hatch (?B ! j)) = assign_style j \<and>
      arg_label (?B ! j) = label (data s ! j)" ..
  from color have 2: "10 + k < length ?B \<longrightarrow> arg_edgecolor (?B ! (10 + k)) = arg_edgecolor (?B ! k)" ..
  from hatch have 3: "4 + k < length ?B \<longrightarrow> arg_hatch (?B ! (4 + k)) = arg_hatch (?B ! k)" ..
  from zip_cycles_palette [of ds] 1 2 3 show ?thesis
    by (intro conjI)
qed

lemma twelve_bars:
  "length (bars (issued twelve_state (bar_subplot accepting xlabel ylabel width_scale twelve_state))) = 12"
proof -
  have d: "data twelve_state = twelve_series" by (simp add: twelve_state_def)
  have m: "length twelve_series = 12" by (simp add: twelve_series_def)
  from m have "data twelve_state \<noteq> []" unfolding d by auto
  then have "returns (bar_subplot accepting xlabel ylabel width_scale twelve_state)"
    by (rule bar_subplot_accepting)
  then show ?thesis by (simp add: bar_subplot_bars_returns length_layout d m)
qed

theorem bar_subplot_style_witness:
  "11 < length (bars (issued twelve_state (bar_subplot accepting None None (Number Python_float 0.7) twelve_state))) \<and>
   10 + 1 < length (bars (issued twelve_state (bar_subplot accepting None None (Number Python_float 0.7) twelve_state))) \<and>
   4 + 1 < length (bars (issued twelve_state (bar_subplot accepting None None (Number Python_float 0.7) twelve_state))) \<and>
   arg_edgecolor (bars (issued twelve_state (bar_subplot accepting None None (Number Python_float 0.7) twelve_state)) ! 11) =
     ''#2ca02c'' \<and>
   arg_hatch (bars (issued twelve_state (bar_subplot accepting None None (Number Python_float 0.7) twelve_state)) ! 11) =
     ''|||||||'' \<and>
   arg_edgecolor (bars (issued twelve_state (bar_subplot accepting None None (Number Python_float 0.7) twelve_state)) ! (10 + 1)) =
   arg_edgecolor (bars (issued twelve_state (bar_subplot accepting None None (Number Python_float 0.7) twelve_state)) ! 1) \<and>
   arg_hatch (bars (issued twelve_state (bar_subplot accepting None None (Number Python_float 0.7) twelve_state)) ! (4 + 1)) =
   arg_hatch (bars (issued twelve_state (bar_subplot accepting None None (Number Python_float 0.7) twelve_state)) ! 1)"
proof -
  let ?B = "bars (issued twelve_state (bar_subplot accepting None None (Number Python_float 0.7) twelve_state))"
  note style = bar_subplot_style [where ds = twelve_series and j = 11 and s = twelve_state
      and lib = accepting and xlabel = None and ylabel = None and width_scale = "Number Python_float 0.7" and k = 1]
  have h1: "11 < length ?B" and h2: "10 + 1 < length ?B" and h3: "4 + 1 < length ?B"
    by (simp_all add: twelve_bars)
  from style [THEN conjunct2, THEN conjunct1, rule_format, OF h1]
  have "arg_edgecolor (?B ! 11) = ''#2ca02c''" and "arg_hatch (?B ! 11) = ''|||||||''"
    by (simp_all add: palette_def hatch_list_def)
  moreover note style [THEN conjunct2, THEN conjunct2, THEN conjunct1, rule_format, OF h2]
    style [THEN conjunct2, THEN conjunct2, THEN conjunct2, rule_format, OF h3]
  ultimately show ?thesis using h1 h2 h3 by (intro conjI)
qed

subsection \<open>One series, two series\<close>

lemma bar_subplot_single:
  assumes "length (data s) = 1"
  shows "bars (issued s (bar_subplot lib xlabel ylabel width_scale s)) =
           [layout_bar (value_of width_scale) (length (xtick_labels s)) (data s) 0]"
proof -
  from assms have ne: "data s \<noteq> []" by auto
  from bar_subplot_bars [OF ne, of lib xlabel ylabel width_scale] assms
  have "bars (issued s (bar_subplot lib xlabel ylabel width_scale s)) =
      take 1 (layout (value_of width_scale) (length (xtick_labels s)) (data s))"
    by auto
  with assms show ?thesis by (simp add: layout_def)
qed

lemma layout_bar_single:
  "length ds = 1 \<Longrightarrow> arg_x (layout_bar width_scale n ds 0) = map real [0..<n]"
  "length ds = 1 \<Longrightarrow> arg_width (layout_bar width_scale n ds 0) = width_scale"
  by (simp_all add: layout_bar_def spec_positions_def spec_center_def spec_initial_offset_def
      spec_bar_width_def)

text \<open>
  Claim C5. With exactly one series the only bar call has the position array
  \<open>[0, 1, ..., N-1]\<close> itself and the bar width \<open>width_scale\<close>, for every \<open>N\<close>, every
  width scale and every behaviour of the library. In the scenario of the claim (labels
  \<^verbatim>\<open>["A","B"]\<close>, values \<^verbatim>\<open>[1,2]\<close>, errors \<^verbatim>\<open>[0.1,0.2]\<close>, width scale \<^verbatim>\<open>0.7\<close>) the positions
  are \<open>[0, 1]\<close> and the bar width is \<open>0.7\<close>.
\<close>

theorem bar_subplot_single_series:
  "(length (data s) = 1 \<longrightarrow>
     (\<exists>b. bars (issued s (bar_subplot lib xlabel ylabel width_scale s)) = [b] \<and>
          arg_x b = map real [0..<length (xtick_labels s)] \<and>
          arg_width b = value_of width_scale \<and>
          arg_height b = vals (data s ! 0))) \<and>
   (\<exists>b. bars (issued
            \<lparr>ax = past, xtick_labels = [''A'', ''B''],
              data = [\<lparr>label = l, vals = [1, 2], errors = [0.1, 0.2]\<rparr>]\<rparr>
            (bar_subplot lib xlabel ylabel (Number k 0.7)
              \<lparr>ax = past, xtick_labels = [''A'', ''B''],
                data = [\<lparr>label = l, vals = [1, 2], errors = [0.1, 0.2]\<rparr>]\<rparr>)) = [b] \<and>
        arg_x b = [0, 1] \<and> arg_width b = 0.7 \<and> arg_height b = [1, 2] \<and>
        arg_yerr b = [0.1, 0.2])"
proof -
  have general: "\<exists>b. bars (issued s (bar_subplot lib xlabel ylabel width_scale s)) = [b] \<and>
          arg_x b = map real [0..<length (xtick_labels s)] \<and>
          arg_width b = value_of width_scale \<and>
          arg_height b = vals (data s ! 0)"
    if "length (data s) = 1" for s width_scale
    using that
    by (intro exI [of _ "layout_bar (value_of width_scale) (length (xtick_labels s)) (data s) 0"])
      (simp add: bar_subplot_single layout_bar_single, simp add: layout_bar_def)
  let ?sc = "\<lparr>ax = past, xtick_labels = [''A'', ''B''],
              data = [\<lparr>label = l, vals = [1, 2], errors = [0.1, 0.2]\<rparr>]\<rparr>"
  have "length (data ?sc) = 1" by simp
  from general [OF this, of "Number k 0.7"] have scenario:
    "\<exists>b. bars (issued ?sc (bar_subplot lib xlabel ylabel (Number k 0.7) ?sc)) = [b] \<and>
        arg_x b = [0, 1] \<and> arg_width b = 0.7 \<and> arg_height b = [1, 2] \<and>
        arg_yerr b = [0.1, 0.2]"
    by (simp add: bar_subplot_single layout_bar_single) (simp add: layout_bar_def)
  from general [of s width_scale] scenario show ?thesis by blast
qed

theorem bar_subplot_single_series_witness:
  "length (data \<lparr>ax = [Subplots], xtick_labels = [''x'', ''y'', ''z''],
                 data = [\<lparr>label = ''only'', vals = [3, 1, 2], errors = [0, 0, 0]\<rparr>]\<rparr>) = 1 \<and>
   (\<exists>b. bars (issued
            \<lparr>ax = [Subplots], xtick_labels = [''x'', ''y'', ''z''],
              data = [\<lparr>label = ''only'', vals = [3, 1, 2], errors = [0, 0, 0]\<rparr>]\<rparr>
            (bar_subplot refusing None None (Number Python_float 0.5)
              \<lparr>ax = [Subplots], xtick_labels = [''x'', ''y'', ''z''],
                data = [\<lparr>label = ''only'', vals = [3, 1, 2], errors = [0, 0, 0]\<rparr>]\<rparr>)) = [b] \<and>
        arg_x b = [0, 1, 2] \<and> arg_width b = 0.5 \<and> arg_height b = [3, 1, 2])"
proof -
  let ?s = "\<lparr>ax = [Subplots], xtick_labels = [''x'', ''y'', ''z''],
              data = [\<lparr>label = ''only'', vals = [3, 1, 2], errors = [0, 0, 0]\<rparr>]\<rparr>"
  have h: "length (data ?s) = 1" by simp
  from bar_subplot_single_series [where s = ?s and lib = refusing and xlabel = None and ylabel = None
      and width_scale = "Number Python_float 0.5", THEN conjunct1, rule_format, OF h] h
  show ?thesis by (simp add: upt_rec)
qed

text \<open>
  Claim C6. Two series, five category labels, width scale \<^verbatim>\<open>0.7\<close>, and the call returns:
  both bar calls have the bar width \<open>0.35\<close>; the first has the positions
  \<open>[0, 1, 2, 3, 4]\<close> shifted by \<open>-0.175\<close>, the second the same shifted by \<open>0.175\<close>.
\<close>

theorem bar_subplot_two_series:
  assumes "length (data s) = 2" and "length (xtick_labels s) = 5"
    and "returns (bar_subplot lib xlabel ylabel (Number k 0.7) s)"
  shows "spec_bar_width 0.7 2 = 0.35 \<and> spec_initial_offset 0.7 2 = - 0.175 \<and>
    spec_initial_offset 0.7 2 + spec_bar_width 0.7 2 = 0.175 \<and>
    (\<exists>b0 b1. bars (issued s (bar_subplot lib xlabel ylabel (Number k 0.7) s)) = [b0, b1] \<and>
       arg_width b0 = 0.35 \<and> arg_width b1 = 0.35 \<and>
       arg_x b0 = map (\<lambda>i. i + (- 0.175)) [0, 1, 2, 3, 4] \<and>
       arg_x b1 = map (\<lambda>i. i + 0.175) [0, 1, 2, 3, 4] \<and>
       arg_height b0 = vals (data s ! 0) \<and> arg_height b1 = vals (data s ! 1))"
proof -
  let ?L = "layout 0.7 (length (xtick_labels s)) (data s)"
  from bar_subplot_bars_returns [OF assms(3)]
  have B: "bars (issued s (bar_subplot lib xlabel ylabel (Number k 0.7) s)) = ?L"
    by simp
  from assms(1) have L: "?L = [layout_bar 0.7 (length (xtick_labels s)) (data s) 0,
      layout_bar 0.7 (length (xtick_labels s)) (data s) 1]"
    by (simp add: layout_def upt_rec)
  have w: "spec_bar_width 0.7 2 = 0.35" "spec_initial_offset 0.7 2 = - 0.175"
    "spec_initial_offset 0.7 2 + spec_bar_width 0.7 2 = 0.175"
    by (simp_all add: spec_bar_width_def spec_initial_offset_def)
  have five: "[0..<5] = [0, 1, 2, 3, 4]" by (simp add: upt_rec)
  have "\<exists>b0 b1. bars (issued s (bar_subplot lib xlabel ylabel (Number k 0.7) s)) = [b0, b1] \<and>
       arg_width b0 = 0.35 \<and> arg_width b1 = 0.35 \<and>
       arg_x b0 = map (\<lambda>i. i + (- 0.175)) [0, 1, 2, 3, 4] \<and>
       arg_x b1 = map (\<lambda>i. i + 0.175) [0, 1, 2, 3, 4] \<and>
       arg_height b0 = vals (data s ! 0) \<and> arg_height b1 = vals (data s ! 1)"
    unfolding B L
    by (intro exI [of _ "layout_bar 0.7 (length (xtick_labels s)) (data s) 0"]
        exI [of _ "layout_bar 0.7 (length (xtick_labels s)) (data s) 1"])
      (simp add: layout_bar_def spec_positions_def spec_center_def assms(1,2) w five)
  with w show ?thesis by (intro conjI)
qed

theorem bar_subplot_two_series_witness:
  "length (data example_state) = 2 \<and> length (xtick_labels example_state) = 5 \<and>
   returns (bar_subplot accepting (Some example_xlabel) (Some example_ylabel) (Number Python_float 0.7) example_state) \<and>
   (\<exists>b0 b1. bars (issued example_state
        (bar_subplot accepting (Some example_xlabel) (Some example_ylabel) (Number Python_float 0.7) example_state)) = [b0, b1] \<and>
       arg_width b0 = 0.35 \<and> arg_width b1 = 0.35 \<and>
       arg_x b0 = [- 0.175, 0.825, 1.825, 2.825, 3.825] \<and>
       arg_x b1 = [0.175, 1.175, 2.175, 3.175, 4.175] \<and>
       arg_height b0 = [12, 32, 48, 41, 85] \<and> arg_height b1 = [84, 72, 99, 87, 60])"
proof -
  have h1: "length (data example_state) = 2"
    by (simp add: example_state_def example_data_def)
  have h2: "length (xtick_labels example_state) = 5"
    by (simp add: example_state_def example_xtick_labels_def)
  have h3: "returns (bar_subplot accepting (Some example_xlabel) (Some example_ylabel) (Number Python_float 0.7) example_state)"
    by (rule bar_subplot_accepting) (simp add: example_state_def example_data_def)
  from bar_subplot_two_series [OF h1 h2 h3] h1 h2 h3 show ?thesis
    by (simp add: example_state_def example_data_def)
qed

subsection \<open>Frame and determinism\<close>

lemma bar_subplot_frame:
  "snd (bar_subplot lib xlabel ylabel width_scale s) =
     s\<lparr>ax := ax s @ issued s (bar_subplot lib xlabel ylabel width_scale s)\<rparr>"
proof (cases "data s = []")
  case True
  from bar_subplot_empty_quiet [OF True, of lib xlabel ylabel width_scale] obtain cs where
    "snd (bar_subplot lib xlabel ylabel width_scale s) = s\<lparr>ax := ax s @ cs\<rparr>"
    by (elim exE conjE)
  then show ?thesis by (simp add: issued_def)
next
  case False
  from bar_subplot_issues [OF False, of lib xlabel ylabel width_scale] obtain cs where
    "snd (bar_subplot lib xlabel ylabel width_scale s) = s\<lparr>ax := ax s @ cs\<rparr>"
    by (elim exE conjE)
  then show ?thesis by (simp add: issued_def)
qed

lemma bar_subplot_keeps:
  "xtick_labels (snd (bar_subplot lib xlabel ylabel width_scale s)) = xtick_labels s"
  "data (snd (bar_subplot lib xlabel ylabel width_scale s)) = data s"
  by (subst bar_subplot_frame, simp)+

text \<open>
  Claim C7. Two calls with the same category labels, the same series and the same
  width scale issue the same bar calls (positions, widths, colours, hatches, heights,
  errors, labels), whatever the axes held before, whatever the axis labels are and
  however the library behaves: the layout depends on nothing else. Bar call for bar
  call they agree as far as both calls got, and when both return they issued the same
  bar calls altogether. In particular a second call on the axes the first call left
  behind repeats the bar calls of the first.
\<close>

theorem bar_subplot_deterministic:
  assumes "xtick_labels s' = xtick_labels s" and "data s' = data s"
  shows "(\<forall>j. j < length (bars (issued s (bar_subplot lib xlabel ylabel width_scale s))) \<longrightarrow>
            j < length (bars (issued s' (bar_subplot lib' xlabel' ylabel' width_scale s'))) \<longrightarrow>
            bars (issued s' (bar_subplot lib' xlabel' ylabel' width_scale s')) ! j =
            bars (issued s (bar_subplot lib xlabel ylabel width_scale s)) ! j) \<and>
         (returns (bar_subplot lib xlabel ylabel width_scale s) \<longrightarrow>
          returns (bar_subplot lib' xlabel' ylabel' width_scale s') \<longrightarrow>
            bars (issued s' (bar_subplot lib' xlabel' ylabel' width_scale s')) =
            bars (issued s (bar_subplot lib xlabel ylabel width_scale s)))"
proof (intro conjI allI impI)
  fix j
  assume "j < length (bars (issued s (bar_subplot lib xlabel ylabel width_scale s)))"
    and "j < length (bars (issued s' (bar_subplot lib' xlabel' ylabel' width_scale s')))"
  from bar_subplot_bars_nth [OF this(1)] bar_subplot_bars_nth [OF this(2)] assms
  show "bars (issued s' (bar_subplot lib' xlabel' ylabel' width_scale s')) ! j =
        bars (issued s (bar_subplot lib xlabel ylabel width_scale s)) ! j"
    by simp
next
  assume "returns (bar_subplot lib xlabel ylabel width_scale s)"
    and "returns (bar_subplot lib' xlabel' ylabel' width_scale s')"
  with assms show "bars (issued s' (bar_subplot lib' xlabel' ylabel' width_scale s')) =
      bars (issued s (bar_subplot lib xlabel ylabel width_scale s))"
    by (simp add: bar_subplot_bars_returns)
qed

theorem bar_subplot_deterministic_witness:
  "xtick_labels (snd (bar_subplot accepting (Some example_xlabel) (Some example_ylabel) (Number Python_float 0.7) example_state)) =
     xtick_labels example_state \<and>
   data (snd (bar_subplot accepting (Some example_xlabel) (Some example_ylabel) (Number Python_float 0.7) example_state)) =
     data example_state \<and>
   returns (bar_subplot accepting (Some example_xlabel) (Some example_ylabel) (Number Python_float 0.7) example_state) \<and>
   returns (bar_subplot accepting None None (Number Python_float 0.7)
     (snd (bar_subplot accepting (Some example_xlabel) (Some example_ylabel) (Number Python_float 0.7) example_state))) \<and>
   bars (issued
     (snd (bar_subplot accepting (Some example_xlabel) (Some example_ylabel) (Number Python_float 0.7) example_state))
     (bar_subplot accepting None None (Number Python_float 0.7)
       (snd (bar_subplot accepting (Some example_xlabel) (Some example_ylabel) (Number Python_float 0.7) example_state)))) =
   bars (issued example_state
     (bar_subplot accepting (Some example_xlabel) (Some example_ylabel) (Number Python_float 0.7) example_state)) \<and>
   length (bars (issued example_state
     (bar_subplot accepting (Some example_xlabel) (Some example_ylabel) (Number Python_float 0.7) example_state))) = 2"
proof -
  let ?r = "bar_subplot accepting (Some example_xlabel) (Some example_ylabel) (Number Python_float 0.7) example_state"
  have ne: "data example_state \<noteq> []"
    by (simp add: example_state_def example_data_def)
  have h1: "xtick_labels (snd ?r) = xtick_labels example_state"
    and h2: "data (snd ?r) = data example_state"
    by (rule bar_subplot_keeps)+
  have h3: "returns ?r"
    using ne by (rule bar_subplot_accepting)
  have h4: "returns (bar_subplot accepting None None (Number Python_float 0.7) (snd ?r))"
    by (rule bar_subplot_accepting) (simp add: h2 ne)
  have len: "length (bars (issued example_state ?r)) = 2"
    by (simp add: example_bars length_layout example_data_def)
  from bar_subplot_deterministic [OF h1 h2, THEN conjunct2, rule_format, OF h3 h4] h1 h2 h3 h4 len
  show ?thesis
    by (intro conjI)
qed

subsection \<open>No series\<close>

lemma subplot_tail_issues: "issued s (subplot_tail lib xlabel ylabel x s) \<noteq> []"
  by (cases xlabel; cases ylabel)
    (auto simp: subplot_tail_def issued_def and_then_def invoke_def split: option.splits)

text \<open>
  Claim C10, as stated, fails. \<^verbatim>\<open>width_scale/nb_catgs\<close> raises only when Python's own
  division is the one performed. With no series and a \<^verbatim>\<open>numpy.float64\<close> width scale the
  call returns, having set ticks, tick labels, tick parameters and grid on the axes;
  there is no division error and the state is not as it was.
\<close>

theorem bar_subplot_empty_numpy_returns:
  "data \<lparr>ax = [Subplots], xtick_labels = [''A'', ''B''], data = []\<rparr> = [] \<and>
   returns (bar_subplot accepting None None (Number Numpy_float64 0.7)
     \<lparr>ax = [Subplots], xtick_labels = [''A'', ''B''], data = []\<rparr>) \<and>
   fst (bar_subplot accepting None None (Number Numpy_float64 0.7)
     \<lparr>ax = [Subplots], xtick_labels = [''A'', ''B''], data = []\<rparr>) \<noteq> Some ZeroDivisionError \<and>
   issued \<lparr>ax = [Subplots], xtick_labels = [''A'', ''B''], data = []\<rparr>
     (bar_subplot accepting None None (Number Numpy_float64 0.7)
       \<lparr>ax = [Subplots], xtick_labels = [''A'', ''B''], data = []\<rparr>) =
     [Set_xticks [0, 1], Set_xticklabels [''A'', ''B''], Tick_params ''both'' 0, Grid False ''x'']"
  by (simp add: bar_subplot_def Let_def arange_def and_then_def invoke_def accepting_def
      returns_def issued_def upt_rec)

text \<open>
  Claim C10, amended. The call ends with \<^verbatim>\<open>ZeroDivisionError\<close> exactly when there is no
  series and the width scale is a number of Python's own (a \<^verbatim>\<open>float\<close> or an \<^verbatim>\<open>int\<close>);
  then no call was issued to the library and the state is as it was. With no series
  and a \<^verbatim>\<open>numpy.float64\<close> width scale the division does not raise: no bar call is
  issued, the calls that follow the loop are, and an error, if any, is the library's.
  With at least one series a call is always issued.
\<close>

theorem bar_subplot_empty_group:
  "(fst (bar_subplot lib xlabel ylabel width_scale s) = Some ZeroDivisionError \<longleftrightarrow>
      data s = [] \<and> kind_of width_scale = Python_float) \<and>
   (data s = [] \<and> kind_of width_scale = Python_float \<longrightarrow>
      bar_subplot lib xlabel ylabel width_scale s = (Some ZeroDivisionError, s) \<and>
      issued s (bar_subplot lib xlabel ylabel width_scale s) = []) \<and>
   (data s = [] \<and> kind_of width_scale = Numpy_float64 \<longrightarrow>
      bar_subplot lib xlabel ylabel width_scale s =
        subplot_tail lib xlabel ylabel (arange (length (xtick_labels s))) s \<and>
      bars (issued s (bar_subplot lib xlabel ylabel width_scale s)) = [] \<and>
      issued s (bar_subplot lib xlabel ylabel width_scale s) \<noteq> [] \<and>
      (\<forall>e. fst (bar_subplot lib xlabel ylabel width_scale s) = Some e \<longrightarrow>
         (\<exists>msg. e = Raised_by_library msg))) \<and>
   (data s \<noteq> [] \<longrightarrow>
      issued s (bar_subplot lib xlabel ylabel width_scale s) \<noteq> [])"
proof -
  let ?r = "bar_subplot lib xlabel ylabel width_scale s"
  have 1: "?r = (Some ZeroDivisionError, s) \<and> issued s ?r = []"
    if "data s = [] \<and> kind_of width_scale = Python_float"
    using that by (simp add: bar_subplot_empty issued_def)
  have 2: "fst ?r \<noteq> Some ZeroDivisionError" if "data s \<noteq> []"
    using bar_subplot_error [OF that, of lib xlabel ylabel width_scale]
    by (simp add: library_error_def)
  have 3: "fst ?r \<noteq> Some ZeroDivisionError" if "kind_of width_scale \<noteq> Python_float"
  proof -
    from that have "kind_of width_scale = Numpy_float64"
      by (cases "kind_of width_scale") simp_all
    from bar_subplot_error_numpy [OF this, of lib xlabel ylabel s] show ?thesis
      by (simp add: library_error_def)
  qed
  have 4: "issued s ?r \<noteq> []" if "data s \<noteq> []"
    using bar_subplot_bars_first [OF that, of lib xlabel ylabel width_scale]
    by (auto simp: bars_def List.map_filter_def)
  have 5: "?r = subplot_tail lib xlabel ylabel (arange (length (xtick_labels s))) s \<and>
      bars (issued s ?r) = [] \<and> issued s ?r \<noteq> [] \<and>
      (\<forall>e. fst ?r = Some e \<longrightarrow> (\<exists>msg. e = Raised_by_library msg))"
    if h: "data s = [] \<and> kind_of width_scale = Numpy_float64"
  proof -
    from h have d: "data s = []" and k: "kind_of width_scale = Numpy_float64"
      by simp_all
    have a: "?r = subplot_tail lib xlabel ylabel (arange (length (xtick_labels s))) s"
      using d k by (rule bar_subplot_empty_numpy)
    have b: "bars (issued s ?r) = []"
      using d by (rule bar_subplot_empty_bars)
    have c: "issued s ?r \<noteq> []"
      unfolding a by (rule subplot_tail_issues)
    have e: "\<forall>e. fst ?r = Some e \<longrightarrow> (\<exists>msg. e = Raised_by_library msg)"
    proof (intro allI impI)
      fix e assume "fst ?r = Some e"
      with bar_subplot_error_numpy [OF k, of lib xlabel ylabel s]
      show "\<exists>msg. e = Raised_by_library msg"
        by (cases e) (simp_all add: library_error_def)
    qed
    from a b c e show ?thesis by (intro conjI)
  qed
  from 1 2 3 have 6: "fst ?r = Some ZeroDivisionError \<longleftrightarrow>
      data s = [] \<and> kind_of width_scale = Python_float"
    by auto
  from 1 have 7: "data s = [] \<and> kind_of width_scale = Python_float \<longrightarrow>
      ?r = (Some ZeroDivisionError, s) \<and> issued s ?r = []" ..
  from 5 have 8: "data s = [] \<and> kind_of width_scale = Numpy_float64 \<longrightarrow>
      ?r = subplot_tail lib xlabel ylabel (arange (length (xtick_labels s))) s \<and>
      bars (issued s ?r) = [] \<and> issued s ?r \<noteq> [] \<and>
      (\<forall>e. fst ?r = Some e \<longrightarrow> (\<exists>msg. e = Raised_by_library msg))" ..
  from 4 have 9: "data s \<noteq> [] \<longrightarrow> issued s ?r \<noteq> []" ..
  from 6 7 8 9 show ?thesis by (intro conjI)
qed

theorem bar_subplot_empty_group_witness:
  "data \<lparr>ax = [Subplots], xtick_labels = [''A'', ''B''], data = []\<rparr> = [] \<and>
   kind_of (Number Python_float 0.7) = Python_float \<and>
   bar_subplot accepting (Some example_xlabel) None (Number Python_float 0.7)
     \<lparr>ax = [Subplots], xtick_labels = [''A'', ''B''], data = []\<rparr> =
     (Some ZeroDivisionError, \<lparr>ax = [Subplots], xtick_labels = [''A'', ''B''], data = []\<rparr>) \<and>
   kind_of (Number Numpy_float64 0.7) = Numpy_float64 \<and>
   bars (issued \<lparr>ax = [Subplots], xtick_labels = [''A'', ''B''], data = []\<rparr>
     (bar_subplot accepting (Some example_xlabel) None (Number Numpy_float64 0.7)
       \<lparr>ax = [Subplots], xtick_labels = [''A'', ''B''], data = []\<rparr>)) = [] \<and>
   issued \<lparr>ax = [Subplots], xtick_labels = [''A'', ''B''], data = []\<rparr>
     (bar_subplot accepting (Some example_xlabel) None (Number Numpy_float64 0.7)
       \<lparr>ax = [Subplots], xtick_labels = [''A'', ''B''], data = []\<rparr>) \<noteq> [] \<and>
   data example_state \<noteq> [] \<and>
   fst (bar_subplot accepting (Some example_xlabel) None (Number Python_float 0.7) example_state) \<noteq>
     Some ZeroDivisionError \<and>
   issued example_state
     (bar_subplot accepting (Some example_xlabel) None (Number Python_float 0.7) example_state) \<noteq> []"
proof -
  let ?s = "\<lparr>ax = [Subplots], xtick_labels = [''A'', ''B''], data = []\<rparr>"
  have h: "data ?s = []" by simp
  have p: "kind_of (Number Python_float 0.7) = Python_float" by simp
  have n: "kind_of (Number Numpy_float64 0.7) = Numpy_float64" by simp
  have ne: "data example_state \<noteq> []"
    by (simp add: example_state_def example_data_def)
  note python = bar_subplot_empty_group [where s = ?s and lib = accepting
      and xlabel = "Some example_xlabel" and ylabel = None and width_scale = "Number Python_float 0.7"]
  note numpy = bar_subplot_empty_group [where s = ?s and lib = accepting
      and xlabel = "Some example_xlabel" and ylabel = None and width_scale = "Number Numpy_float64 0.7"]
  note full = bar_subplot_empty_group [where s = example_state and lib = accepting
      and xlabel = "Some example_xlabel" and ylabel = None and width_scale = "Number Python_float 0.7"]
  from python [THEN conjunct2, THEN conjunct1, rule_format, OF conjI, OF h p]
  have a: "bar_subplot accepting (Some example_xlabel) None (Number Python_float 0.7) ?s =
      (Some ZeroDivisionError, ?s)" ..
  note q = numpy [THEN conjunct2, THEN conjunct2, THEN conjunct1, rule_format, OF conjI, OF h n]
  note b = q [THEN conjunct2, THEN conjunct1]
  note c = q [THEN conjunct2, THEN conjunct2, THEN conjunct1]
  from full [THEN conjunct1] ne
  have d: "fst (bar_subplot accepting (Some example_xlabel) None (Number Python_float 0.7) example_state) \<noteq>
      Some ZeroDivisionError"
    by simp
  note e = full [THEN conjunct2, THEN conjunct2, THEN conjunct2, rule_format, OF ne]
  from h p a n b c ne d e show ?thesis by (intro conjI)
qed

subsection \<open>\<^verbatim>\<open>bar_plot\<close>\<close>

lemma bar_plot_split:
  "bar_plot lib figsize xlabel ylabel fig_name dest_dir set_figsize legend_kwargs hide_legend
     width_scale s =
   and_then (invoke lib Subplots s)
     (\<lambda>s. and_then (bar_subplot lib xlabel ylabel width_scale s)
       (plot_tail lib figsize fig_name dest_dir set_figsize legend_kwargs hide_legend))"
  by (simp add: bar_plot_def plot_tail_def)

lemma returns_skip: "returns (None, s)"
  by (simp add: returns_def)

lemma bar_subplot_files: "files (issued s (bar_subplot lib xlabel ylabel width_scale s)) = []"
proof (cases "data s = []")
  case True
  then show ?thesis
    by (rule bar_subplot_empty_bars)
next
  case False
  from bar_subplot_issues [OF False, of lib xlabel ylabel width_scale] obtain k cs where
    "snd (bar_subplot lib xlabel ylabel width_scale s) =
       s\<lparr>ax := ax s @ map Bar (take k (layout (value_of width_scale) (length (xtick_labels s)) (data s))) @ cs\<rparr>"
    and "quiet cs"
    by (elim exE conjE)
  then show ?thesis
    by (simp add: issued_def files_append files_map_Bar quiet_def)
qed

lemma appending_bar_subplot: "appending (\<lambda>cs. True) (bar_subplot lib xlabel ylabel width_scale)"
  unfolding appending_def
proof (intro allI)
  fix s
  from bar_subplot_frame [of lib xlabel ylabel width_scale s]
  show "\<exists>cs. snd (bar_subplot lib xlabel ylabel width_scale s) = s\<lparr>ax := ax s @ cs\<rparr> \<and> True"
    by blast
qed

lemma appending_plot_tail:
  "appending (\<lambda>cs. True) (plot_tail lib figsize fig_name dest_dir set_figsize legend_kwargs hide_legend)"
  unfolding plot_tail_def Let_def
  by (cases hide_legend; simp; intro appending_and_then appending_invoke appending_skip TrueI)

lemma appending_bar_plot:
  "appending (\<lambda>cs. True)
     (bar_plot lib figsize xlabel ylabel fig_name dest_dir set_figsize legend_kwargs hide_legend width_scale)"
proof -
  have "appending (\<lambda>cs. True)
     (\<lambda>s. and_then (invoke lib Subplots s)
       (\<lambda>s. and_then (bar_subplot lib xlabel ylabel width_scale s)
         (plot_tail lib figsize fig_name dest_dir set_figsize legend_kwargs hide_legend)))"
    by (intro appending_and_then appending_invoke appending_bar_subplot appending_plot_tail TrueI)
  then show ?thesis
    by (simp add: appending_def bar_plot_split)
qed

lemma bar_plot_appends:
  "snd (bar_plot lib figsize xlabel ylabel fig_name dest_dir set_figsize legend_kwargs hide_legend
          width_scale s) =
   s\<lparr>ax := ax s @ issued s (bar_plot lib figsize xlabel ylabel fig_name dest_dir set_figsize
          legend_kwargs hide_legend width_scale s)\<rparr>"
proof -
  from appending_bar_plot [of lib figsize xlabel ylabel fig_name dest_dir set_figsize legend_kwargs
      hide_legend width_scale]
  obtain cs where "snd (bar_plot lib figsize xlabel ylabel fig_name dest_dir set_figsize legend_kwargs
      hide_legend width_scale s) = s\<lparr>ax := ax s @ cs\<rparr>"
    unfolding appending_def by (elim allE [of _ s] exE conjE)
  then show ?thesis by (simp add: issued_def)
qed

lemma plot_tail_accepting:
  "returns (plot_tail accepting figsize fig_name dest_dir set_figsize legend_kwargs hide_legend s)"
  by (simp add: plot_tail_def Let_def returns_def invoke_def and_then_def accepting_def)

lemma bar_plot_accepting:
  assumes "data s \<noteq> []"
  shows "returns (bar_plot accepting figsize xlabel ylabel fig_name dest_dir set_figsize legend_kwargs
           hide_legend width_scale s)"
proof -
  have "returns (invoke accepting Subplots s)"
    by (simp add: returns_def invoke_def accepting_def)
  moreover from assms have "returns (bar_subplot accepting xlabel ylabel width_scale (snd (invoke accepting Subplots s)))"
    by (intro bar_subplot_accepting) (simp add: snd_invoke)
  ultimately show ?thesis
    by (simp add: bar_plot_split returns_and_then plot_tail_accepting)
qed

subsection \<open>Paths\<close>

lemma split_from_ne: "split_from word xs \<noteq> []"
  by (induction xs arbitrary: word) simp_all

lemma split_from_plain: "CHR ''/'' \<notin> set ys \<Longrightarrow> split_from word ys = [word @ ys]"
  by (induction ys arbitrary: word) auto

lemma split_from_append:
  "CHR ''/'' \<notin> set ys \<Longrightarrow>
   split_from word (xs @ ys) = butlast (split_from word xs) @ [last (split_from word xs) @ ys]"
  by (induction xs arbitrary: word) (simp_all add: split_from_plain split_from_ne)

lemma split_sep_plain: "CHR ''/'' \<notin> set ys \<Longrightarrow> split_sep ys = [ys]"
  by (simp add: split_sep_def split_from_plain)

lemma split_sep_append:
  "CHR ''/'' \<notin> set ys \<Longrightarrow>
   split_sep (xs @ ys) = butlast (split_sep xs) @ [last (split_sep xs) @ ys]"
  by (simp add: split_sep_def split_from_append)

lemma components_ext:
  assumes "CHR ''/'' \<notin> set e" and "length e = 4"
  shows "filter (\<lambda>x. x \<noteq> [] \<and> x \<noteq> ''.'') (split_sep (g @ e)) =
           filter (\<lambda>x. x \<noteq> [] \<and> x \<noteq> ''.'') (butlast (split_sep g)) @ [last (split_sep g) @ e]"
proof -
  from assms(2) have "length (last (split_sep g) @ e) \<noteq> length ''.''" by simp
  then have "last (split_sep g) @ e \<noteq> ''.''" by metis
  moreover from assms(2) have "last (split_sep g) @ e \<noteq> []" by auto
  ultimately show ?thesis
    by (simp add: split_sep_append [OF assms(1)])
qed

lemma splitroot_ext:
  assumes "CHR ''/'' \<notin> set e" and "e \<noteq> []"
  shows "splitroot (f @ e) = (fst (splitroot f), snd (splitroot f) @ e)"
proof (cases "f \<noteq> [] \<and> hd f = CHR ''/''")
  case False
  from assms have "hd e \<noteq> CHR ''/''" by (cases e) auto
  with False assms(2) show ?thesis
    by (cases f) (simp_all add: splitroot_def)
next
  case True
  from assms obtain a e' where e: "e = a # e'" and a: "a \<noteq> CHR ''/''"
    by (cases e) auto
  have "dropWhile (\<lambda>c. c = CHR ''/'') (f @ e) = dropWhile (\<lambda>c. c = CHR ''/'') f @ e"
    unfolding e using a by (induction f) simp_all
  with True show ?thesis
    by (simp add: splitroot_def Let_def)
qed

lemma parse_parts_ext:
  assumes "CHR ''/'' \<notin> set e" and "length e = 4"
  shows "parse_parts (f @ e) =
           \<lparr>path_root = fst (splitroot f),
            path_parts = filter (\<lambda>x. x \<noteq> [] \<and> x \<noteq> ''.'') (butlast (split_sep (snd (splitroot f)))) @
              [last (split_sep (snd (splitroot f))) @ e]\<rparr>"
proof -
  from assms(2) have "e \<noteq> []" by auto
  from splitroot_ext [OF assms(1) this, of f] show ?thesis
    by (simp add: parse_parts_def components_ext [OF assms])
qed

lemma truediv_ext:
  assumes "CHR ''/'' \<notin> set e" and "length e = 4"
  shows "path_parts (truediv d (f @ e)) \<noteq> [] \<and>
         last (path_parts (truediv d (f @ e))) = last (split_sep (snd (splitroot f))) @ e"
  by (simp add: truediv_def Let_def parse_parts_ext [OF assms])

lemma truediv_pdf_png: "truediv d (f @ ''.pdf'') \<noteq> truediv d (f @ ''.png'')"
proof
  assume "truediv d (f @ ''.pdf'') = truediv d (f @ ''.png'')"
  then have "last (path_parts (truediv d (f @ ''.pdf''))) = last (path_parts (truediv d (f @ ''.png'')))"
    by simp
  then show False
    by (simp add: truediv_ext)
qed

lemma splitroot_relative: "\<not> absolute f \<Longrightarrow> splitroot f = ([], f)"
  by (auto simp: splitroot_def absolute_def)

lemma truediv_relative:
  assumes "CHR ''/'' \<notin> set e" and "length e = 4" and "\<not> absolute f"
  shows "truediv d (f @ e) =
           \<lparr>path_root = path_root d,
            path_parts = path_parts d @ filter (\<lambda>x. x \<noteq> [] \<and> x \<noteq> ''.'') (butlast (split_sep f)) @
              [last (split_sep f) @ e]\<rparr>"
  by (simp add: truediv_def Let_def parse_parts_ext [OF assms(1,2)] splitroot_relative [OF assms(3)])

lemma truediv_inside:
  assumes "CHR ''/'' \<notin> set e" and "length e = 4" and "\<not> absolute f"
    and "''..'' \<notin> set (split_sep f)"
  shows "inside d (truediv d (f @ e))"
proof -
  from assms(4) have "''..'' \<notin> set (butlast (split_sep f))"
    by (auto dest: in_set_butlastD)
  moreover from assms(2) have "length (last (split_sep f) @ e) \<noteq> length ''..''" by simp
  then have "last (split_sep f) @ e \<noteq> ''..''" by metis
  ultimately show ?thesis
    by (auto simp: inside_def truediv_relative [OF assms(1-3)])
qed

lemma truediv_plain:
  assumes "CHR ''/'' \<notin> set e" and "length e = 4" and "CHR ''/'' \<notin> set f"
  shows "truediv d (f @ e) = \<lparr>path_root = path_root d, path_parts = path_parts d @ [f @ e]\<rparr>"
    and "inside d (truediv d (f @ e))"
proof -
  from assms(3) have r: "\<not> absolute f"
    by (cases f) (auto simp: absolute_def)
  from assms(3) have s: "split_sep f = [f]" by (rule split_sep_plain)
  show t: "truediv d (f @ e) = \<lparr>path_root = path_root d, path_parts = path_parts d @ [f @ e]\<rparr>"
    by (simp add: truediv_relative [OF assms(1,2) r] s)
  from assms(2) have "length (f @ e) \<noteq> length ''..''" by simp
  then have "f @ e \<noteq> ''..''" by metis
  then show "inside d (truediv d (f @ e))"
    unfolding t by (simp add: inside_def)
qed

subsection \<open>What \<^verbatim>\<open>bar_plot\<close> leaves behind\<close>

lemma created_append: "created (cs @ cs') = created cs @ created cs'"
  by (simp add: created_def)

lemma created_map_Bar: "created (map Bar bs) = []"
  by (induction bs) (simp_all add: created_def)

lemma created_quiet: "quiet cs \<Longrightarrow> created cs = []"
proof (induction cs)
  case Nil
  show ?case by (simp add: created_def)
next
  case (Cons c cs)
  then show ?case
    by (cases c) (simp_all add: quiet_def created_def bars_def files_def List.map_filter_def)
qed

lemma bar_subplot_created: "created (issued s (bar_subplot lib xlabel ylabel width_scale s)) = []"
proof (cases "data s = []")
  case True
  from bar_subplot_empty_quiet [OF True, of lib xlabel ylabel width_scale] obtain cs where
    "snd (bar_subplot lib xlabel ylabel width_scale s) = s\<lparr>ax := ax s @ cs\<rparr>" and "quiet cs"
    by (elim exE conjE)
  then show ?thesis
    by (simp add: issued_def created_quiet)
next
  case False
  from bar_subplot_issues [OF False, of lib xlabel ylabel width_scale] obtain k cs where
    "snd (bar_subplot lib xlabel ylabel width_scale s) =
       s\<lparr>ax := ax s @ map Bar (take k (layout (value_of width_scale) (length (xtick_labels s)) (data s))) @ cs\<rparr>"
    and "quiet cs"
    by (elim exE conjE)
  then show ?thesis
    by (simp add: issued_def created_append created_map_Bar created_quiet)
qed

lemma plot_tail_calls:
  assumes "returns (plot_tail lib figsize fig_name dest_dir set_figsize legend_kwargs hide_legend s)"
  shows "snd (plot_tail lib figsize fig_name dest_dir set_figsize legend_kwargs hide_legend s) =
           s\<lparr>ax := ax s @ (if hide_legend then [] else [Legend legend_kwargs]) @
             [Set_size_inches (case set_figsize of None \<Rightarrow> figsize | Some sz \<Rightarrow> sz),
              Tight_layout 0.1,
              Savefig (truediv dest_dir (fig_name @ ''.pdf'')),
              Savefig (truediv dest_dir (fig_name @ ''.png''))]\<rparr>"
  using assms
  by (cases hide_legend)
    (simp_all add: plot_tail_def Let_def returns_and_then snd_and_then snd_invoke returns_skip)

lemma bar_plot_issued:
  assumes "returns (bar_plot lib figsize xlabel ylabel fig_name dest_dir set_figsize legend_kwargs
             hide_legend width_scale s)"
  shows "issued s (bar_plot lib figsize xlabel ylabel fig_name dest_dir set_figsize
             legend_kwargs hide_legend width_scale s) =
           [Subplots] @
           issued (snd (invoke lib Subplots s))
             (bar_subplot lib xlabel ylabel width_scale (snd (invoke lib Subplots s))) @
           (if hide_legend then [] else [Legend legend_kwargs]) @
           [Set_size_inches (case set_figsize of None \<Rightarrow> figsize | Some sz \<Rightarrow> sz),
            Tight_layout 0.1,
            Savefig (truediv dest_dir (fig_name @ ''.pdf'')),
            Savefig (truediv dest_dir (fig_name @ ''.png''))]"
proof -
  let ?tail = "plot_tail lib figsize fig_name dest_dir set_figsize legend_kwargs hide_legend"
  let ?s1 = "snd (invoke lib Subplots s)"
  let ?r2 = "bar_subplot lib xlabel ylabel width_scale ?s1"
  let ?p = "bar_plot lib figsize xlabel ylabel fig_name dest_dir set_figsize legend_kwargs hide_legend
          width_scale s"
  let ?cs = "(if hide_legend then [] else [Legend legend_kwargs]) @
           [Set_size_inches (case set_figsize of None \<Rightarrow> figsize | Some sz \<Rightarrow> sz),
            Tight_layout 0.1,
            Savefig (truediv dest_dir (fig_name @ ''.pdf'')),
            Savefig (truediv dest_dir (fig_name @ ''.png''))]"
  from assms have r0: "returns (invoke lib Subplots s)"
    and r2: "returns ?r2" and r3: "returns (?tail (snd ?r2))"
    by (simp_all add: bar_plot_split returns_and_then)
  from r0 r2 have p: "snd ?p = snd (?tail (snd ?r2))"
    by (simp add: bar_plot_split snd_and_then)
  have t: "snd (?tail (snd ?r2)) = (snd ?r2)\<lparr>ax := ax (snd ?r2) @ ?cs\<rparr>"
    using r3 by (rule plot_tail_calls)
  have s2: "snd ?r2 = ?s1\<lparr>ax := ax ?s1 @ issued ?s1 ?r2\<rparr>"
    by (rule bar_subplot_frame)
  have s1: "?s1 = s\<lparr>ax := ax s @ [Subplots]\<rparr>"
    by (rule snd_invoke)
  have "snd ?p = s\<lparr>ax := ax s @ [Subplots] @ issued ?s1 ?r2 @ ?cs\<rparr>"
    unfolding p t by (subst s2, subst s2, subst (1 2) s1) simp
  then show ?thesis
    by (rule issued_append)
qed

lemma bar_plot_saves:
  assumes "returns (bar_plot lib figsize xlabel ylabel fig_name dest_dir set_figsize legend_kwargs
             hide_legend width_scale s)"
  shows "files (issued s (bar_plot lib figsize xlabel ylabel fig_name dest_dir set_figsize
             legend_kwargs hide_legend width_scale s)) =
           [truediv dest_dir (fig_name @ ''.pdf''), truediv dest_dir (fig_name @ ''.png'')]"
proof -
  have "files [Subplots] = []"
    and "files ((if hide_legend then [] else [Legend legend_kwargs]) @
           [Set_size_inches (case set_figsize of None \<Rightarrow> figsize | Some sz \<Rightarrow> sz),
            Tight_layout 0.1,
            Savefig (truediv dest_dir (fig_name @ ''.pdf'')),
            Savefig (truediv dest_dir (fig_name @ ''.png''))]) =
         [truediv dest_dir (fig_name @ ''.pdf''), truediv dest_dir (fig_name @ ''.png'')]"
    by (simp_all add: files_def List.map_filter_def)
  then show ?thesis
    unfolding bar_plot_issued [OF assms] by (simp only: files_append bar_subplot_files append_Nil)
qed

lemma bar_plot_created:
  assumes "returns (bar_plot lib figsize xlabel ylabel fig_name dest_dir set_figsize legend_kwargs
             hide_legend width_scale s)"
  shows "created (issued s (bar_plot lib figsize xlabel ylabel fig_name dest_dir set_figsize
             legend_kwargs hide_legend width_scale s)) =
           [Subplots, Savefig (truediv dest_dir (fig_name @ ''.pdf'')),
            Savefig (truediv dest_dir (fig_name @ ''.png''))]"
proof -
  let ?cs = "(if hide_legend then [] else [Legend legend_kwargs]) @
           [Set_size_inches (case set_figsize of None \<Rightarrow> figsize | Some sz \<Rightarrow> sz),
            Tight_layout 0.1,
            Savefig (truediv dest_dir (fig_name @ ''.pdf'')),
            Savefig (truediv dest_dir (fig_name @ ''.png''))]"
  let ?bs = "issued (snd (invoke lib Subplots s))
             (bar_subplot lib xlabel ylabel width_scale (snd (invoke lib Subplots s)))"
  have a: "created [Subplots] = [Subplots]"
    by (simp add: created_def)
  have b: "created ?cs = [Savefig (truediv dest_dir (fig_name @ ''.pdf'')),
          Savefig (truediv dest_dir (fig_name @ ''.png''))]"
    by (simp add: created_def)
  have "created ([Subplots] @ ?bs @ ?cs) = created [Subplots] @ created ?bs @ created ?cs"
    by (simp only: created_append)
  also have "\<dots> = [Subplots, Savefig (truediv dest_dir (fig_name @ ''.pdf'')),
            Savefig (truediv dest_dir (fig_name @ ''.png''))]"
    unfolding a b bar_subplot_created by simp
  finally show ?thesis
    unfolding bar_plot_issued [OF assms] .
qed

lemma bar_plot_first:
  "\<exists>rest. issued s (bar_plot lib figsize xlabel ylabel fig_name dest_dir set_figsize
             legend_kwargs hide_legend width_scale s) = Subplots # rest"
proof -
  let ?F = "\<lambda>s. and_then (bar_subplot lib xlabel ylabel width_scale s)
       (plot_tail lib figsize fig_name dest_dir set_figsize legend_kwargs hide_legend)"
  let ?s1 = "s\<lparr>ax := ax s @ [Subplots]\<rparr>"
  let ?p = "bar_plot lib figsize xlabel ylabel fig_name dest_dir set_figsize legend_kwargs hide_legend
          width_scale s"
  have "appending (\<lambda>cs. True) ?F"
    by (intro appending_and_then appending_bar_subplot appending_plot_tail TrueI)
  then obtain cs where cs: "snd (?F ?s1) = ?s1\<lparr>ax := ax ?s1 @ cs\<rparr>"
    unfolding appending_def by (elim allE [of _ ?s1] exE conjE)
  have p: "?p = and_then (invoke lib Subplots s) ?F"
    by (rule bar_plot_split)
  show ?thesis
  proof (cases "returns (invoke lib Subplots s)")
    case True
    then have "snd ?p = snd (?F ?s1)"
      unfolding p by (simp add: snd_and_then snd_invoke)
    with cs have "snd ?p = s\<lparr>ax := ax s @ Subplots # cs\<rparr>" by simp
    then have "issued s ?p = Subplots # cs" by (rule issued_append)
    then show ?thesis ..
  next
    case False
    then have "and_then (invoke lib Subplots s) ?F = invoke lib Subplots s"
      by (cases "invoke lib Subplots s") (auto simp: returns_def and_then_def)
    then have "snd ?p = s\<lparr>ax := ax s @ [Subplots]\<rparr>"
      unfolding p by (simp add: snd_invoke)
    then have "issued s ?p = [Subplots]" by (rule issued_append)
    then show ?thesis ..
  qed
qed

lemma example_nonempty: "data example_state \<noteq> []"
  by (simp add: example_state_def example_data_def)

text \<open>
  Claim C8, as stated, fails in its second half. The run of the module's example
  returns and leaves behind a figure, which nothing closes, and two files.
\<close>

theorem bar_plot_leaves_figure_and_files:
  "returns (bar_plot accepting [3.3, 2] (Some example_xlabel) (Some example_ylabel)
      ''example_bar_plot'' (Path ''.'') None None False (Number Python_float 0.7) example_state) \<and>
   created (issued example_state
     (bar_plot accepting [3.3, 2] (Some example_xlabel) (Some example_ylabel)
       ''example_bar_plot'' (Path ''.'') None None False (Number Python_float 0.7) example_state)) =
     [Subplots,
      Savefig \<lparr>path_root = [], path_parts = [''example_bar_plot.pdf'']\<rparr>,
      Savefig \<lparr>path_root = [], path_parts = [''example_bar_plot.png'']\<rparr>] \<and>
   created (issued example_state
     (bar_plot accepting [3.3, 2] (Some example_xlabel) (Some example_ylabel)
       ''example_bar_plot'' (Path ''.'') None None False (Number Python_float 0.7) example_state)) \<noteq> []"
proof -
  let ?p = "bar_plot accepting [3.3, 2] (Some example_xlabel) (Some example_ylabel)
      ''example_bar_plot'' (Path ''.'') None None False (Number Python_float 0.7) example_state"
  have r: "returns ?p"
    using example_nonempty by (rule bar_plot_accepting)
  have pdf: "truediv (Path ''.'') (''example_bar_plot'' @ ''.pdf'') =
      \<lparr>path_root = [], path_parts = [''example_bar_plot.pdf'']\<rparr>"
    and png: "truediv (Path ''.'') (''example_bar_plot'' @ ''.png'') =
      \<lparr>path_root = [], path_parts = [''example_bar_plot.png'']\<rparr>"
    by (simp_all add: truediv_def Path_def parse_parts_def splitroot_def split_sep_def Let_def)
  from bar_plot_created [OF r]
  have c: "created (issued example_state ?p) =
     [Subplots,
      Savefig \<lparr>path_root = [], path_parts = [''example_bar_plot.pdf'']\<rparr>,
      Savefig \<lparr>path_root = [], path_parts = [''example_bar_plot.png'']\<rparr>]"
    unfolding pdf png .
  then have n: "created (issued example_state ?p) \<noteq> []"
    by simp
  from r c n show ?thesis by (intro conjI)
qed

text \<open>
  Claim C8, amended. Neither function changes the caller's list of category labels or
  the caller's series: the state after a call of \<^verbatim>\<open>bar_subplot\<close> or of \<^verbatim>\<open>bar_plot\<close> is the
  state before it with the calls issued to the plotting library appended, whether the
  call returns or raises (the library being taken not to write to the lists it is
  handed). \<^verbatim>\<open>bar_subplot\<close> makes no figure and no file: all it leaves is on the axes it
  was given. \<^verbatim>\<open>bar_plot\<close> begins by asking for a figure, and when it returns it has left
  behind exactly that figure and two files.
\<close>

theorem bar_plot_frame:
  "snd (bar_subplot lib xlabel ylabel width_scale s) =
     s\<lparr>ax := ax s @ issued s (bar_subplot lib xlabel ylabel width_scale s)\<rparr> \<and>
   xtick_labels (snd (bar_subplot lib xlabel ylabel width_scale s)) = xtick_labels s \<and>
   data (snd (bar_subplot lib xlabel ylabel width_scale s)) = data s \<and>
   snd (bar_plot lib figsize xlabel ylabel fig_name dest_dir set_figsize legend_kwargs hide_legend
          width_scale s) =
     s\<lparr>ax := ax s @ issued s (bar_plot lib figsize xlabel ylabel fig_name dest_dir set_figsize
          legend_kwargs hide_legend width_scale s)\<rparr> \<and>
   xtick_labels (snd (bar_plot lib figsize xlabel ylabel fig_name dest_dir set_figsize legend_kwargs
          hide_legend width_scale s)) = xtick_labels s \<and>
   data (snd (bar_plot lib figsize xlabel ylabel fig_name dest_dir set_figsize legend_kwargs
          hide_legend width_scale s)) = data s \<and>
   created (issued s (bar_subplot lib xlabel ylabel width_scale s)) = [] \<and>
   (\<exists>rest. issued s (bar_plot lib figsize xlabel ylabel fig_name dest_dir set_figsize
          legend_kwargs hide_legend width_scale s) = Subplots # rest) \<and>
   (returns (bar_plot lib figsize xlabel ylabel fig_name dest_dir set_figsize legend_kwargs
          hide_legend width_scale s) \<longrightarrow>
      created (issued s (bar_plot lib figsize xlabel ylabel fig_name dest_dir set_figsize
          legend_kwargs hide_legend width_scale s)) =
        [Subplots, Savefig (truediv dest_dir (fig_name @ ''.pdf'')),
         Savefig (truediv dest_dir (fig_name @ ''.png''))])"
proof -
  let ?p = "bar_plot lib figsize xlabel ylabel fig_name dest_dir set_figsize legend_kwargs hide_legend
          width_scale s"
  have p: "snd ?p = s\<lparr>ax := ax s @ issued s ?p\<rparr>"
    by (rule bar_plot_appends)
  have l: "xtick_labels (snd ?p) = xtick_labels s" and d: "data (snd ?p) = data s"
    by (subst p, simp)+
  have c: "created (issued s (bar_subplot lib xlabel ylabel width_scale s)) = []"
    by (rule bar_subplot_created)
  have f: "\<exists>rest. issued s ?p = Subplots # rest"
    by (rule bar_plot_first)
  have r: "returns ?p \<longrightarrow> created (issued s ?p) =
        [Subplots, Savefig (truediv dest_dir (fig_name @ ''.pdf'')),
         Savefig (truediv dest_dir (fig_name @ ''.png''))]"
    using bar_plot_created [of lib figsize xlabel ylabel fig_name dest_dir set_figsize legend_kwargs
        hide_legend width_scale s] ..
  from bar_subplot_frame [of lib xlabel ylabel width_scale s]
    bar_subplot_keeps [of lib xlabel ylabel width_scale s] p l d c f r
  show ?thesis by (intro conjI)
qed

theorem bar_plot_frame_witness:
  "returns (bar_plot accepting [3.3, 2] None None ''f'' (Path ''figs'') (Some [4, 3]) None True
      (Number Python_float 0.7) example_state) \<and>
   created (issued example_state
     (bar_plot accepting [3.3, 2] None None ''f'' (Path ''figs'') (Some [4, 3]) None True
       (Number Python_float 0.7) example_state)) =
     [Subplots,
      Savefig \<lparr>path_root = [], path_parts = [''figs'', ''f.pdf'']\<rparr>,
      Savefig \<lparr>path_root = [], path_parts = [''figs'', ''f.png'']\<rparr>] \<and>
   xtick_labels (snd (bar_plot accepting [3.3, 2] None None ''f'' (Path ''figs'') (Some [4, 3]) None True
      (Number Python_float 0.7) example_state)) = example_xtick_labels \<and>
   data (snd (bar_plot accepting [3.3, 2] None None ''f'' (Path ''figs'') (Some [4, 3]) None True
      (Number Python_float 0.7) example_state)) = example_data \<and>
   xtick_labels (snd (bar_subplot refusing None None (Number Python_float 0.7) example_state)) =
     example_xtick_labels \<and>
   data (snd (bar_subplot refusing None None (Number Python_float 0.7) example_state)) = example_data \<and>
   created (issued example_state
     (bar_subplot refusing None None (Number Python_float 0.7) example_state)) = []"
proof -
  let ?p = "bar_plot accepting [3.3, 2] None None ''f'' (Path ''figs'') (Some [4, 3]) None True
      (Number Python_float 0.7) example_state"
  have l: "xtick_labels example_state = example_xtick_labels"
    and d: "data example_state = example_data"
    by (simp_all add: example_state_def)
  have h: "returns ?p"
    using example_nonempty by (rule bar_plot_accepting)
  have pdf: "truediv (Path ''figs'') (''f'' @ ''.pdf'') =
      \<lparr>path_root = [], path_parts = [''figs'', ''f.pdf'']\<rparr>"
    and png: "truediv (Path ''figs'') (''f'' @ ''.png'') =
      \<lparr>path_root = [], path_parts = [''figs'', ''f.png'']\<rparr>"
    by (simp_all add: truediv_def Path_def parse_parts_def splitroot_def split_sep_def Let_def)
  note plot = bar_plot_frame [where s = example_state and lib = accepting and figsize = "[3.3, 2]"
      and xlabel = None and ylabel = None and fig_name = "''f''" and dest_dir = "Path ''figs''"
      and set_figsize = "Some [4, 3]" and legend_kwargs = None and hide_legend = True
      and width_scale = "Number Python_float 0.7"]
  note subplot = bar_plot_frame [where s = example_state and lib = refusing and figsize = "[]"
      and xlabel = None and ylabel = None and fig_name = "''f''" and dest_dir = "Path ''figs''"
      and set_figsize = None and legend_kwargs = None and hide_legend = True
      and width_scale = "Number Python_float 0.7"]
  note rest = plot [THEN conjunct2, THEN conjunct2, THEN conjunct2, THEN conjunct2]
  note more = rest [THEN conjunct2, THEN conjunct2, THEN conjunct2, THEN conjunct2]
  from more [rule_format, OF h]
  have c: "created (issued example_state ?p) =
     [Subplots,
      Savefig \<lparr>path_root = [], path_parts = [''figs'', ''f.pdf'']\<rparr>,
      Savefig \<lparr>path_root = [], path_parts = [''figs'', ''f.png'']\<rparr>]"
    unfolding pdf png .
  from rest [THEN conjunct1] have pl: "xtick_labels (snd ?p) = example_xtick_labels"
    unfolding l .
  from rest [THEN conjunct2, THEN conjunct1] have pd: "data (snd ?p) = example_data"
    unfolding d .
  from subplot [THEN conjunct2, THEN conjunct1]
  have sl: "xtick_labels (snd (bar_subplot refusing None None (Number Python_float 0.7) example_state)) =
     example_xtick_labels"
    unfolding l .
  from subplot [THEN conjunct2, THEN conjunct2, THEN conjunct1]
  have sd: "data (snd (bar_subplot refusing None None (Number Python_float 0.7) example_state)) =
     example_data"
    unfolding d .
  note sc = subplot [THEN conjunct2, THEN conjunct2, THEN conjunct2, THEN conjunct2, THEN conjunct2,
      THEN conjunct2, THEN conjunct1]
  from h c pl pd sl sd sc show ?thesis by (intro conjI)
qed

text \<open>
  Claim C9, as stated, fails: the files need not be under the destination directory.
  pathlib's \<^verbatim>\<open>/\<close> drops its left operand when the right one has a root, and it keeps
  \<^verbatim>\<open>'..'\<close>. With the destination directory \<^verbatim>\<open>out\<close>, the figure name \<^verbatim>\<open>/etc/f\<close> sends the
  files to \<^verbatim>\<open>/etc\<close>, and the figure name \<^verbatim>\<open>../f\<close> to the directory above \<^verbatim>\<open>out\<close>.
\<close>

theorem bar_plot_files_outside:
  "returns (bar_plot accepting [3.3, 2] None None ''/etc/f'' (Path ''out'') None None False
      (Number Python_float 0.7) example_state) \<and>
   files (issued example_state
     (bar_plot accepting [3.3, 2] None None ''/etc/f'' (Path ''out'') None None False
       (Number Python_float 0.7) example_state)) =
     [\<lparr>path_root = ''/'', path_parts = [''etc'', ''f.pdf'']\<rparr>,
      \<lparr>path_root = ''/'', path_parts = [''etc'', ''f.png'']\<rparr>] \<and>
   \<not> inside (Path ''out'') \<lparr>path_root = ''/'', path_parts = [''etc'', ''f.pdf'']\<rparr> \<and>
   \<not> inside (Path ''out'') \<lparr>path_root = ''/'', path_parts = [''etc'', ''f.png'']\<rparr> \<and>
   returns (bar_plot accepting [3.3, 2] None None ''../f'' (Path ''out'') None None False
      (Number Python_float 0.7) example_state) \<and>
   files (issued example_state
     (bar_plot accepting [3.3, 2] None None ''../f'' (Path ''out'') None None False
       (Number Python_float 0.7) example_state)) =
     [\<lparr>path_root = [], path_parts = [''out'', ''..'', ''f.pdf'']\<rparr>,
      \<lparr>path_root = [], path_parts = [''out'', ''..'', ''f.png'']\<rparr>] \<and>
   \<not> inside (Path ''out'') \<lparr>path_root = [], path_parts = [''out'', ''..'', ''f.pdf'']\<rparr> \<and>
   \<not> inside (Path ''out'') \<lparr>path_root = [], path_parts = [''out'', ''..'', ''f.png'']\<rparr>"
proof -
  let ?p = "bar_plot accepting [3.3, 2] None None ''/etc/f'' (Path ''out'') None None False
      (Number Python_float 0.7) example_state"
  let ?q = "bar_plot accepting [3.3, 2] None None ''../f'' (Path ''out'') None None False
      (Number Python_float 0.7) example_state"
  have p: "returns ?p" and q: "returns ?q"
    using example_nonempty by (rule bar_plot_accepting)+
  have paths:
    "truediv (Path ''out'') (''/etc/f'' @ ''.pdf'') = \<lparr>path_root = ''/'', path_parts = [''etc'', ''f.pdf'']\<rparr>"
    "truediv (Path ''out'') (''/etc/f'' @ ''.png'') = \<lparr>path_root = ''/'', path_parts = [''etc'', ''f.png'']\<rparr>"
    "truediv (Path ''out'') (''../f'' @ ''.pdf'') = \<lparr>path_root = [], path_parts = [''out'', ''..'', ''f.pdf'']\<rparr>"
    "truediv (Path ''out'') (''../f'' @ ''.png'') = \<lparr>path_root = [], path_parts = [''out'', ''..'', ''f.png'']\<rparr>"
    by (simp_all add: truediv_def Path_def parse_parts_def splitroot_def split_sep_def Let_def)
  from bar_plot_saves [OF p] have fp: "files (issued example_state ?p) =
     [\<lparr>path_root = ''/'', path_parts = [''etc'', ''f.pdf'']\<rparr>,
      \<lparr>path_root = ''/'', path_parts = [''etc'', ''f.png'']\<rparr>]"
    unfolding paths .
  from bar_plot_saves [OF q] have fq: "files (issued example_state ?q) =
     [\<lparr>path_root = [], path_parts = [''out'', ''..'', ''f.pdf'']\<rparr>,
      \<lparr>path_root = [], path_parts = [''out'', ''..'', ''f.png'']\<rparr>]"
    unfolding paths .
  have out:
    "\<not> inside (Path ''out'') \<lparr>path_root = ''/'', path_parts = [''etc'', ''f.pdf'']\<rparr>"
    "\<not> inside (Path ''out'') \<lparr>path_root = ''/'', path_parts = [''etc'', ''f.png'']\<rparr>"
    "\<not> inside (Path ''out'') \<lparr>path_root = [], path_parts = [''out'', ''..'', ''f.pdf'']\<rparr>"
    "\<not> inside (Path ''out'') \<lparr>path_root = [], path_parts = [''out'', ''..'', ''f.png'']\<rparr>"
    by (simp_all add: inside_def Path_def parse_parts_def splitroot_def split_sep_def)
  from p fp out(1,2) q fq out(3,4) show ?thesis by (intro conjI)
qed

text \<open>
  Claim C9, amended. A call of \<^verbatim>\<open>bar_plot\<close> that returns has asked the library to write
  exactly two files, in this order: \<^verbatim>\<open>dest_dir / (fig_name + ".pdf")\<close> and
  \<^verbatim>\<open>dest_dir / (fig_name + ".png")\<close>, two different paths. When the figure name holds no
  separator, they are the files of these names in the destination directory itself.
  When the figure name does not start with the separator and none of its components
  is \<^verbatim>\<open>'..'\<close>, they are in the destination directory or below it.
\<close>

theorem bar_plot_files:
  assumes "returns (bar_plot lib figsize xlabel ylabel fig_name dest_dir set_figsize legend_kwargs
             hide_legend width_scale s)"
  shows "files (issued s (bar_plot lib figsize xlabel ylabel fig_name dest_dir set_figsize
             legend_kwargs hide_legend width_scale s)) =
           [truediv dest_dir (fig_name @ ''.pdf''), truediv dest_dir (fig_name @ ''.png'')] \<and>
         truediv dest_dir (fig_name @ ''.pdf'') \<noteq> truediv dest_dir (fig_name @ ''.png'') \<and>
         length (files (issued s (bar_plot lib figsize xlabel ylabel fig_name dest_dir set_figsize
             legend_kwargs hide_legend width_scale s))) = 2 \<and>
         (CHR ''/'' \<notin> set fig_name \<longrightarrow>
            truediv dest_dir (fig_name @ ''.pdf'') =
              \<lparr>path_root = path_root dest_dir, path_parts = path_parts dest_dir @ [fig_name @ ''.pdf'']\<rparr> \<and>
            truediv dest_dir (fig_name @ ''.png'') =
              \<lparr>path_root = path_root dest_dir, path_parts = path_parts dest_dir @ [fig_name @ ''.png'']\<rparr> \<and>
            inside dest_dir (truediv dest_dir (fig_name @ ''.pdf'')) \<and>
            inside dest_dir (truediv dest_dir (fig_name @ ''.png''))) \<and>
         (\<not> absolute fig_name \<and> ''..'' \<notin> set (split_sep fig_name) \<longrightarrow>
            inside dest_dir (truediv dest_dir (fig_name @ ''.pdf'')) \<and>
            inside dest_dir (truediv dest_dir (fig_name @ ''.png'')))"
proof -
  let ?p = "bar_plot lib figsize xlabel ylabel fig_name dest_dir set_figsize legend_kwargs hide_legend
          width_scale s"
  have pdf: "CHR ''/'' \<notin> set ''.pdf''" "length ''.pdf'' = 4"
    and png: "CHR ''/'' \<notin> set ''.png''" "length ''.png'' = 4"
    by simp_all
  from assms have 1: "files (issued s ?p) =
      [truediv dest_dir (fig_name @ ''.pdf''), truediv dest_dir (fig_name @ ''.png'')]"
    by (rule bar_plot_saves)
  have 2: "truediv dest_dir (fig_name @ ''.pdf'') \<noteq> truediv dest_dir (fig_name @ ''.png'')"
    by (rule truediv_pdf_png)
  from 1 have 3: "length (files (issued s ?p)) = 2"
    by simp
  have 4: "CHR ''/'' \<notin> set fig_name \<longrightarrow>
      truediv dest_dir (fig_name @ ''.pdf'') =
        \<lparr>path_root = path_root dest_dir, path_parts = path_parts dest_dir @ [fig_name @ ''.pdf'']\<rparr> \<and>
      truediv dest_dir (fig_name @ ''.png'') =
        \<lparr>path_root = path_root dest_dir, path_parts = path_parts dest_dir @ [fig_name @ ''.png'']\<rparr> \<and>
      inside dest_dir (truediv dest_dir (fig_name @ ''.pdf'')) \<and>
      inside dest_dir (truediv dest_dir (fig_name @ ''.png''))"
  proof
    assume plain: "CHR ''/'' \<notin> set fig_name"
    from truediv_plain [OF pdf plain, of dest_dir] truediv_plain [OF png plain, of dest_dir]
    show "truediv dest_dir (fig_name @ ''.pdf'') =
        \<lparr>path_root = path_root dest_dir, path_parts = path_parts dest_dir @ [fig_name @ ''.pdf'']\<rparr> \<and>
      truediv dest_dir (fig_name @ ''.png'') =
        \<lparr>path_root = path_root dest_dir, path_parts = path_parts dest_dir @ [fig_name @ ''.png'']\<rparr> \<and>
      inside dest_dir (truediv dest_dir (fig_name @ ''.pdf'')) \<and>
      inside dest_dir (truediv dest_dir (fig_name @ ''.png''))"
      by (intro conjI)
  qed
  have 5: "\<not> absolute fig_name \<and> ''..'' \<notin> set (split_sep fig_name) \<longrightarrow>
      inside dest_dir (truediv dest_dir (fig_name @ ''.pdf'')) \<and>
      inside dest_dir (truediv dest_dir (fig_name @ ''.png''))"
  proof
    assume "\<not> absolute fig_name \<and> ''..'' \<notin> set (split_sep fig_name)"
    then have r: "\<not> absolute fig_name" and u: "''..'' \<notin> set (split_sep fig_name)"
      by simp_all
    from truediv_inside [OF pdf r u, of dest_dir] truediv_inside [OF png r u, of dest_dir]
    show "inside dest_dir (truediv dest_dir (fig_name @ ''.pdf'')) \<and>
      inside dest_dir (truediv dest_dir (fig_name @ ''.png''))"
      by (intro conjI)
  qed
  from 1 2 3 4 5 show ?thesis by (intro conjI)
qed

theorem bar_plot_files_witness:
  "returns (bar_plot accepting [3.3, 2] (Some example_xlabel) (Some example_ylabel)
      ''example_bar_plot'' (Path ''.'') (Some [3.3, 2])
      (Some [(''loc'', ''lower right''), (''ncol'', ''2''), (''bbox_to_anchor'', ''(0, 1, 1, 1)'')])
      False (Number Python_float 0.7) example_state) \<and>
   CHR ''/'' \<notin> set ''example_bar_plot'' \<and>
   files (issued example_state
     (bar_plot accepting [3.3, 2] (Some example_xlabel) (Some example_ylabel)
      ''example_bar_plot'' (Path ''.'') (Some [3.3, 2])
      (Some [(''loc'', ''lower right''), (''ncol'', ''2''), (''bbox_to_anchor'', ''(0, 1, 1, 1)'')])
      False (Number Python_float 0.7) example_state)) =
     [\<lparr>path_root = [], path_parts = [''example_bar_plot.pdf'']\<rparr>,
      \<lparr>path_root = [], path_parts = [''example_bar_plot.png'']\<rparr>] \<and>
   inside (Path ''.'') \<lparr>path_root = [], path_parts = [''example_bar_plot.pdf'']\<rparr> \<and>
   inside (Path ''.'') \<lparr>path_root = [], path_parts = [''example_bar_plot.png'']\<rparr> \<and>
   returns (bar_plot accepting [3.3, 2] None None ''plots/bars'' (Path ''/tmp/out'') None None True
      (Number Python_float 0.7) example_state) \<and>
   \<not> absolute ''plots/bars'' \<and> ''..'' \<notin> set (split_sep ''plots/bars'') \<and>
   files (issued example_state
     (bar_plot accepting [3.3, 2] None None ''plots/bars'' (Path ''/tmp/out'') None None True
      (Number Python_float 0.7) example_state)) =
     [\<lparr>path_root = ''/'', path_parts = [''tmp'', ''out'', ''plots'', ''bars.pdf'']\<rparr>,
      \<lparr>path_root = ''/'', path_parts = [''tmp'', ''out'', ''plots'', ''bars.png'']\<rparr>] \<and>
   inside (Path ''/tmp/out'') \<lparr>path_root = ''/'', path_parts = [''tmp'', ''out'', ''plots'', ''bars.pdf'']\<rparr> \<and>
   inside (Path ''/tmp/out'') \<lparr>path_root = ''/'', path_parts = [''tmp'', ''out'', ''plots'', ''bars.png'']\<rparr>"
proof -
  let ?p = "bar_plot accepting [3.3, 2] (Some example_xlabel) (Some example_ylabel)
      ''example_bar_plot'' (Path ''.'') (Some [3.3, 2])
      (Some [(''loc'', ''lower right''), (''ncol'', ''2''), (''bbox_to_anchor'', ''(0, 1, 1, 1)'')])
      False (Number Python_float 0.7) example_state"
  let ?q = "bar_plot accepting [3.3, 2] None None ''plots/bars'' (Path ''/tmp/out'') None None True
      (Number Python_float 0.7) example_state"
  have p: "returns ?p" and q: "returns ?q"
    using example_nonempty by (rule bar_plot_accepting)+
  have plain: "CHR ''/'' \<notin> set ''example_bar_plot''"
    by simp
  have rel: "\<not> absolute ''plots/bars'' \<and> ''..'' \<notin> set (split_sep ''plots/bars'')"
    by (simp add: absolute_def split_sep_def)
  have paths:
    "truediv (Path ''.'') (''example_bar_plot'' @ ''.pdf'') =
       \<lparr>path_root = [], path_parts = [''example_bar_plot.pdf'']\<rparr>"
    "truediv (Path ''.'') (''example_bar_plot'' @ ''.png'') =
       \<lparr>path_root = [], path_parts = [''example_bar_plot.png'']\<rparr>"
    "truediv (Path ''/tmp/out'') (''plots/bars'' @ ''.pdf'') =
       \<lparr>path_root = ''/'', path_parts = [''tmp'', ''out'', ''plots'', ''bars.pdf'']\<rparr>"
    "truediv (Path ''/tmp/out'') (''plots/bars'' @ ''.png'') =
       \<lparr>path_root = ''/'', path_parts = [''tmp'', ''out'', ''plots'', ''bars.png'']\<rparr>"
    by (simp_all add: truediv_def Path_def parse_parts_def splitroot_def split_sep_def Let_def)
  note a = bar_plot_files [OF p]
  note b = bar_plot_files [OF q]
  note a1 = a [THEN conjunct1, unfolded paths]
  note a4 = a [THEN conjunct2, THEN conjunct2, THEN conjunct2, THEN conjunct1, rule_format, OF plain]
  note a5 = a4 [THEN conjunct2, THEN conjunct2, THEN conjunct1, unfolded paths]
  note a6 = a4 [THEN conjunct2, THEN conjunct2, THEN conjunct2, unfolded paths]
  note b1 = b [THEN conjunct1, unfolded paths]
  note b5 = b [THEN conjunct2, THEN conjunct2, THEN conjunct2, THEN conjunct2, rule_format, OF rel]
  note b6 = b5 [THEN conjunct1, unfolded paths]
  note b7 = b5 [THEN conjunct2, unfolded paths]
  from rel have r1: "\<not> absolute ''plots/bars''" and r2: "''..'' \<notin> set (split_sep ''plots/bars'')"
    by simp_all
  from p plain a1 a5 a6 q r1 r2 b1 b6 b7 show ?thesis by (intro conjI)
qed

subsection \<open>Series of the wrong length, run\<close>

lemma mismatch_run:
  "bar_subplot shape_checking None None (Number Python_float 0.7) mismatch_state =
     (Some (Raised_by_library ''shape mismatch''),
      mismatch_state\<lparr>ax :=
        [Bar \<lparr>arg_x = [0, 1, 2, 3, 4], arg_height = [1, 2, 3], arg_width = 0.7,
              arg_yerr = [0, 0, 0], arg_label = ''short'', arg_fill = False,
              arg_hatch = ''////////'', arg_edgecolor = ''#19B2FF'',
              arg_elinewidth = 0.5, arg_capsize = 1, arg_capthick = 0.5\<rparr>]\<rparr>)"
  by (simp add: bar_subplot_def Let_def mismatch_state_def arange_def shift_def cycle_def
      palette_def hatch_list_def invoke_def and_then_def shape_checking_def elinewidth_def
      capsize_def capthick_def upt_rec)

lemma bar_subplot_first_call:
  assumes ne: "data s \<noteq> []"
  shows "\<exists>rest. issued s (bar_subplot lib xlabel ylabel width_scale s) =
           Bar (layout_bar (value_of width_scale) (length (xtick_labels s)) (data s) 0) # rest"
proof -
  let ?L = "layout (value_of width_scale) (length (xtick_labels s)) (data s)"
  from bar_subplot_issues [OF ne, of lib xlabel ylabel width_scale] obtain k cs where
    k: "1 \<le> k"
    and s: "snd (bar_subplot lib xlabel ylabel width_scale s) = s\<lparr>ax := ax s @ map Bar (take k ?L) @ cs\<rparr>"
    by (elim exE conjE)
  from ne have "?L = layout_bar (value_of width_scale) (length (xtick_labels s)) (data s) 0 # tl ?L"
    by (cases "data s") (simp_all add: layout_def upt_rec)
  with k obtain bs where "take k ?L = layout_bar (value_of width_scale) (length (xtick_labels s)) (data s) 0 # bs"
    by (cases k) (simp_all, metis take_Suc_Cons)
  with issued_append [OF s] show ?thesis by simp
qed

text \<open>
  Claim C3, as stated, fails. Three values against five labels: with a library that
  accepts every call the call returns; with a library that checks shapes the call
  raises, but the error is the library's and the bar call had been issued.
\<close>

theorem mismatch_not_rejected:
  "mismatched mismatch_state \<and>
   \<not> rejected_before_rendering mismatch_state (bar_subplot accepting None None (Number Python_float 0.7) mismatch_state) \<and>
   returns (bar_subplot accepting None None (Number Python_float 0.7) mismatch_state) \<and>
   \<not> rejected_before_rendering mismatch_state (bar_subplot shape_checking None None (Number Python_float 0.7) mismatch_state) \<and>
   bar_subplot shape_checking None None (Number Python_float 0.7) mismatch_state =
     (Some (Raised_by_library ''shape mismatch''),
      mismatch_state\<lparr>ax :=
        [Bar \<lparr>arg_x = [0, 1, 2, 3, 4], arg_height = [1, 2, 3], arg_width = 0.7,
              arg_yerr = [0, 0, 0], arg_label = ''short'', arg_fill = False,
              arg_hatch = ''////////'', arg_edgecolor = ''#19B2FF'',
              arg_elinewidth = 0.5, arg_capsize = 1, arg_capthick = 0.5\<rparr>]\<rparr>)"
proof -
  have m: "mismatched mismatch_state"
    by (simp add: mismatched_def mismatch_state_def)
  have "data mismatch_state \<noteq> []"
    by (simp add: mismatch_state_def)
  then have r: "returns (bar_subplot accepting None None (Number Python_float 0.7) mismatch_state)"
    by (rule bar_subplot_accepting)
  then have a: "\<not> rejected_before_rendering mismatch_state
      (bar_subplot accepting None None (Number Python_float 0.7) mismatch_state)"
    by (simp add: rejected_before_rendering_def returns_def)
  have b: "\<not> rejected_before_rendering mismatch_state
      (bar_subplot shape_checking None None (Number Python_float 0.7) mismatch_state)"
    by (simp add: mismatch_run rejected_before_rendering_def issued_def) (simp add: mismatch_state_def)
  from m a r b mismatch_run show ?thesis by (intro conjI)
qed

text \<open>
  Claim C3, amended. The code checks no lengths. When some series is mismatched, the
  call is not rejected before rendering, however the library behaves: the first thing
  it does is to issue the bar call of the first series, with \<open>N\<close> positions and the
  values as they are; an error, if any, is raised by the library; and when the library
  accepts every call, a bar call goes out whose heights are not as many as its
  positions.
\<close>

theorem mismatch_reaches_library:
  assumes "mismatched s"
  shows "\<not> rejected_before_rendering s (bar_subplot lib xlabel ylabel width_scale s) \<and>
    (\<exists>b rest. issued s (bar_subplot lib xlabel ylabel width_scale s) = Bar b # rest \<and>
       length (arg_x b) = length (xtick_labels s) \<and> arg_height b = vals (data s ! 0)) \<and>
    (\<forall>e. fst (bar_subplot lib xlabel ylabel width_scale s) = Some e \<longrightarrow>
       (\<exists>msg. e = Raised_by_library msg)) \<and>
    (returns (bar_subplot lib xlabel ylabel width_scale s) \<longrightarrow>
       (\<exists>j<length (data s).
          length (arg_height (bars (issued s (bar_subplot lib xlabel ylabel width_scale s)) ! j)) \<noteq>
          length (arg_x (bars (issued s (bar_subplot lib xlabel ylabel width_scale s)) ! j))))"
proof -
  let ?r = "bar_subplot lib xlabel ylabel width_scale s"
  let ?n = "length (xtick_labels s)"
  from assms obtain d where d: "d \<in> set (data s)" and len: "length (vals d) \<noteq> ?n"
    unfolding mismatched_def by blast
  from d have ne: "data s \<noteq> []" by auto
  from bar_subplot_first_call [OF ne, of lib xlabel ylabel width_scale] obtain rest where
    first: "issued s ?r = Bar (layout_bar (value_of width_scale) ?n (data s) 0) # rest" ..
  then have 1: "\<not> rejected_before_rendering s ?r"
    by (simp add: rejected_before_rendering_def)
  from first have 2: "\<exists>b rest. issued s ?r = Bar b # rest \<and>
       length (arg_x b) = ?n \<and> arg_height b = vals (data s ! 0)"
    by (simp add: layout_bar_def spec_positions_def)
  have 3: "\<forall>e. fst ?r = Some e \<longrightarrow> (\<exists>msg. e = Raised_by_library msg)"
  proof (intro allI impI)
    fix e assume e: "fst ?r = Some e"
    from bar_subplot_error [OF ne, of lib xlabel ylabel width_scale] e
    show "\<exists>msg. e = Raised_by_library msg"
      by (cases e) (simp_all add: library_error_def)
  qed
  have 4: "returns ?r \<longrightarrow> (\<exists>j<length (data s).
      length (arg_height (bars (issued s ?r) ! j)) \<noteq> length (arg_x (bars (issued s ?r) ! j)))"
  proof
    assume "returns ?r"
    then have B: "bars (issued s ?r) = layout (value_of width_scale) ?n (data s)"
      by (rule bar_subplot_bars_returns)
    from d obtain j where j: "j < length (data s)" and dj: "data s ! j = d"
      by (auto simp: in_set_conv_nth)
    with len have "length (arg_height (layout (value_of width_scale) ?n (data s) ! j)) \<noteq>
        length (arg_x (layout (value_of width_scale) ?n (data s) ! j))"
      by (simp add: nth_layout layout_bar_def spec_positions_def)
    with j B show "\<exists>j<length (data s).
      length (arg_height (bars (issued s ?r) ! j)) \<noteq> length (arg_x (bars (issued s ?r) ! j))"
      by auto
  qed
  from 1 2 3 4 show ?thesis by (intro conjI)
qed

theorem mismatch_reaches_library_witness:
  "mismatched mismatch_state \<and>
   \<not> rejected_before_rendering mismatch_state (bar_subplot shape_checking None None (Number Python_float 0.7) mismatch_state) \<and>
   (\<exists>b rest. issued mismatch_state (bar_subplot shape_checking None None (Number Python_float 0.7) mismatch_state) = Bar b # rest \<and>
      length (arg_x b) = 5 \<and> arg_height b = [1, 2, 3]) \<and>
   fst (bar_subplot shape_checking None None (Number Python_float 0.7) mismatch_state) =
     Some (Raised_by_library ''shape mismatch'')"
proof -
  have m: "mismatched mismatch_state"
    by (simp add: mismatched_def mismatch_state_def)
  have e: "fst (bar_subplot shape_checking None None (Number Python_float 0.7) mismatch_state) =
     Some (Raised_by_library ''shape mismatch'')"
    by (simp add: mismatch_run)
  have n: "length (xtick_labels mismatch_state) = 5"
    and v: "vals (data mismatch_state ! 0) = [1, 2, 3]"
    by (simp_all add: mismatch_state_def)
  note reached = mismatch_reaches_library [OF m, of shape_checking None None "Number Python_float 0.7"]
  from reached have 1: "\<not> rejected_before_rendering mismatch_state
      (bar_subplot shape_checking None None (Number Python_float 0.7) mismatch_state)" ..
  from reached [THEN conjunct2, THEN conjunct1]
  have 2: "\<exists>b rest. issued mismatch_state (bar_subplot shape_checking None None (Number Python_float 0.7) mismatch_state) =
        Bar b # rest \<and> length (arg_x b) = 5 \<and> arg_height b = [1, 2, 3]"
    unfolding n v .
  from m 1 2 e show ?thesis by (intro conjI)
qed

end
